theory Spec2Isabelle
  imports Main "HOL-Library.Word" "HOL-Library.Sublist"
begin

unbundle bit_operations_syntax

section \<open>Data model of \<open>communication/io.hpp\<close>\<close>

type_synonym u8 = "8 word"
type_synonym u32 = "32 word"

text \<open>The table \<open>baudrates\<close> (\<open>std::array<uint32_t, 21>\<close>), in the order of the source.\<close>

definition baudrates :: "u32 list" where
  "baudrates =
     [1200, 2400, 4800, 9600, 19200, 38400, 57600,
      115200, 230400, 460800, 500000, 576000, 921600, 1000000,
      1152000, 1500000, 2000000, 2500000, 3000000, 3500000, 4000000]"

datatype LogLevel = DEBUG | INFO | ERROR

text \<open>
  A \<open>boost::system::system_error\<close>: the text of \<open>e.what()\<close> and the text that
  \<open>boost::diagnostic_information(e)\<close> gives for it.
\<close>

datatype system_error = SystemError (what: string) (diagnostic_information: string)

text \<open>The options that \<open>connect\<close> and \<open>setBaurate\<close> pass to \<open>set_option\<close>.\<close>

datatype parity_t = parity_none | parity_odd | parity_even
datatype stop_bits_t = stop_bits_one | stop_bits_onepointfive | stop_bits_two
datatype flow_control_t = flow_control_none | flow_control_software | flow_control_hardware

datatype serial_option =
    baud_rate u32
  | parity parity_t
  | character_size nat
  | stop_bits stop_bits_t
  | flow_control flow_control_t

record termios =
  c_iflag :: u32
  c_oflag :: u32
  c_cflag :: u32
  c_lflag :: u32

record serial_struct =
  flags :: u32

text \<open>A resolved TCP endpoint: address and port.\<close>

datatype endpoint = Endpoint string string

text \<open>
  What a run does to the outside, in order: every call on the port, the socket and the
  terminal interface with the result it gave, every message handed to \<open>node_->log\<close>
  and every \<open>sleep_for\<close> (in milliseconds).
\<close>

datatype event =
    Log LogLevel string
  | IsOpen bool
  | Close "system_error option"
  | Open string "system_error option"
  | SetOption serial_option "system_error option"
  | GetOption "system_error + u32"
  | SleepFor nat
  | TcGetAttr int
  | TcSetAttr termios int
  | IoctlTIOCGSERIAL int
  | IoctlTIOCSSERIAL serial_struct int
  | Resolve string string "system_error option"
  | SocketConnect endpoint "system_error option"
  | SocketSetNoDelay bool "system_error option"

text \<open>
  The external collaborators, over a state \<open>'w\<close> of the outside world. A call that can
  throw returns the \<open>system_error\<close> it throws; a system call returns its \<open>int\<close>.
  \<open>tcgetattr\<close> and the \<open>TIOCGSERIAL\<close> request receive the present content of the
  structure they fill and return its new content. The header's constants that the source
  uses and does not define are parameters as well.
\<close>

record 'w platform =
  port_is_open :: "'w \<Rightarrow> bool"
  port_close :: "'w \<Rightarrow> system_error option \<times> 'w"
  port_open :: "string \<Rightarrow> 'w \<Rightarrow> system_error option \<times> 'w"
  set_option :: "serial_option \<Rightarrow> 'w \<Rightarrow> system_error option \<times> 'w"
  get_option :: "'w \<Rightarrow> (system_error + u32) \<times> 'w"
  tcgetattr :: "termios \<Rightarrow> 'w \<Rightarrow> (int \<times> termios) \<times> 'w"
  cfmakeraw :: "termios \<Rightarrow> termios"
  tcsetattr :: "termios \<Rightarrow> 'w \<Rightarrow> int \<times> 'w"
  ioctl_TIOCGSERIAL :: "serial_struct \<Rightarrow> 'w \<Rightarrow> (int \<times> serial_struct) \<times> 'w"
  ioctl_TIOCSSERIAL :: "serial_struct \<Rightarrow> 'w \<Rightarrow> int \<times> 'w"
  resolve :: "string \<Rightarrow> string \<Rightarrow> 'w \<Rightarrow> (system_error + endpoint \<times> endpoint list) \<times> 'w"
  socket_connect :: "endpoint \<Rightarrow> 'w \<Rightarrow> system_error option \<times> 'w"
  socket_set_no_delay :: "bool \<Rightarrow> 'w \<Rightarrow> system_error option \<times> 'w"
  IXON :: u32
  IXOFF :: u32
  CRTSCTS :: u32
  ASYNC_LOW_LATENCY :: u32

text \<open>
  The data members \<open>flowcontrol_\<close>, \<open>port_\<close> and \<open>baudrate_\<close> of \<open>SerialIo\<close>
  (a name cannot end in an underscore here).
\<close>

record SerialIo =
  flowcontrol :: bool
  port :: string
  baudrate :: u32

text \<open>
  How a member function is left: by a \<open>return\<close> statement, by control reaching the
  closing brace of the function (no \<open>return\<close> statement is executed), or by an exception
  that nothing inside it catches.
\<close>

datatype outcome = Returned bool | FlowedOffEnd | Thrown system_error

section \<open>\<open>std::to_string\<close> on unsigned values\<close>

definition digit_char :: "nat \<Rightarrow> char" where
  "digit_char d = char_of (48 + d)"

function to_string :: "nat \<Rightarrow> string" where
  "to_string n = (if n < 10 then [digit_char n] else to_string (n div 10) @ [digit_char (n mod 10)])"
  by pat_completeness auto
termination
  by (relation "measure id") auto

declare to_string.simps [simp del]

section \<open>\<open>SerialIo::setBaurate\<close>\<close>

text \<open>The two messages that each \<open>catch\<close> block of \<open>setBaurate\<close> logs.\<close>

definition get_option_failed :: "system_error \<Rightarrow> event list" where
  "get_option_failed e =
     [Log ERROR (''get_option failed due to '' @ what e),
      Log INFO (''Additional info about error is '' @ diagnostic_information e)]"

definition set_option_failed :: "system_error \<Rightarrow> event list" where
  "set_option_failed e =
     [Log ERROR (''set_option failed due to '' @ what e),
      Log INFO (''Additional info about error is '' @ diagnostic_information e)]"

text \<open>
  How the \<open>for\<close> loop is left: by its \<open>break\<close>, by its condition
  \<open>i < baudrates.size()\<close> becoming false, or by one of its \<open>return false\<close>.
\<close>

datatype loop_exit = Break | Exhausted | ReturnFalse

text \<open>
  The \<open>for\<close> loop from the index \<open>i\<close> (a \<open>uint8_t\<close>) on, with the present value of
  \<open>current_baudrate\<close>. It gives the way the loop is left, the value of \<open>i\<close> and of
  \<open>current_baudrate\<close> at that moment, the world and the events of the iterations run.
\<close>

function baud_loop ::
  "'w platform \<Rightarrow> u32 \<Rightarrow> u8 \<Rightarrow> u32 \<Rightarrow> 'w \<Rightarrow> loop_exit \<times> u8 \<times> u32 \<times> 'w \<times> event list"
where
  "baud_loop P target i current_baudrate w =
     (if \<not> unat i < length baudrates then (Exhausted, i, current_baudrate, w, [])
      else if current_baudrate = target then (Break, i, current_baudrate, w, [])
      else if current_baudrate \<ge> baudrates ! unat i \<and> target > baudrates ! unat i
        then baud_loop P target (i + 1) current_baudrate w
      else
        (case set_option P (baud_rate (baudrates ! unat i)) w of
           (Some e, w1) \<Rightarrow>
             (ReturnFalse, i, current_baudrate, w1,
              SetOption (baud_rate (baudrates ! unat i)) (Some e) # set_option_failed e)
         | (None, w1) \<Rightarrow>
             (case get_option P w1 of
                (Inl e, w2) \<Rightarrow>
                  (ReturnFalse, i, current_baudrate, w2,
                   [SetOption (baud_rate (baudrates ! unat i)) None, SleepFor 500,
                    GetOption (Inl e)] @ get_option_failed e)
              | (Inr v, w2) \<Rightarrow>
                  (case baud_loop P target (i + 1) v w2 of
                     (x, j, c, w3, evs) \<Rightarrow>
                       (x, j, c, w3,
                        [SetOption (baud_rate (baudrates ! unat i)) None, SleepFor 500,
                         GetOption (Inr v),
                         Log DEBUG (''Set ASIO baudrate to '' @ to_string (unat v))] @ evs)))))"
  by pat_completeness auto

lemma unat_u8_succ: "unat (i :: u8) < 21 \<Longrightarrow> unat (i + 1) = Suc (unat i)"
  by (simp add: unat_word_ariths)

termination baud_loop
  by (relation "measure (\<lambda>(P, target, i, c, w). 21 - unat i)")
     (auto simp: unat_u8_succ baudrates_def)

declare baud_loop.simps [simp del]

text \<open>The messages that \<open>setBaurate\<close> logs outside its \<open>catch\<close> blocks.\<close>

definition entry_logs :: "event list" where
  "entry_logs =
     [Log DEBUG ''Gradually increasing the baudrate to the desired value...'',
      Log DEBUG ''Initiated current_baudrate object...'']"

definition current_log :: "u32 \<Rightarrow> event" where
  "current_log v = Log DEBUG (''Current baudrate is '' @ to_string (unat v))"

definition leaving_log :: "u32 \<Rightarrow> event" where
  "leaving_log c =
     Log INFO (''Set ASIO baudrate to '' @ to_string (unat c) @
               '', leaving InitializeSerial() method'')"

text \<open>
  \<open>setBaurate\<close>, with the target \<open>baudrate_\<close> of the object. After the loop the function
  logs the rate and ends: its last statement is the \<open>log\<close> call, not a \<open>return\<close>.
\<close>

definition setBaurate :: "'w platform \<Rightarrow> SerialIo \<Rightarrow> 'w \<Rightarrow> outcome \<times> 'w \<times> event list" where
  "setBaurate P sio w =
     (case get_option P w of
        (Inl e, w1) \<Rightarrow>
          (Returned False, w1, entry_logs @ [GetOption (Inl e)] @ get_option_failed e)
      | (Inr v, w1) \<Rightarrow>
          (case baud_loop P (baudrate sio) 0 v w1 of
             (x, j, c, w2, evs) \<Rightarrow>
               (if x = ReturnFalse
                then (Returned False, w2,
                      entry_logs @ [GetOption (Inr v), current_log v] @ evs)
                else (FlowedOffEnd, w2,
                      entry_logs @ [GetOption (Inr v), current_log v] @ evs @ [leaving_log c]))))"

section \<open>\<open>SerialIo::connect\<close>\<close>

text \<open>
  The message that the \<open>catch\<close> block of the open loop logs; \<open>p\<close> stands for
  \<open>std::to_string(port_)\<close>, the text of the \<open>std::string\<close> member \<open>port_\<close>.
\<close>

definition could_not_open :: "string \<Rightarrow> system_error \<Rightarrow> string" where
  "could_not_open p err =
     ''SerialCoket: Could not open serial port '' @ p @ ''. Error: '' @ what err @
     ''. Will retry every second.''"

definition retry_events :: "string \<Rightarrow> system_error \<Rightarrow> event list" where
  "retry_events p err = [Open p (Some err), Log ERROR (could_not_open p err), SleepFor 1000]"

text \<open>
  The loop \<open>while (!opened)\<close>. Its only exit is an \<open>open\<close> that does not throw, so
  it need not return: the value is \<open>None\<close> then.
\<close>

partial_function (option) open_loop ::
  "'w platform \<Rightarrow> string \<Rightarrow> 'w \<Rightarrow> ('w \<times> event list) option"
where
  "open_loop P p w =
     (case port_open P p w of
        (None, w1) \<Rightarrow> Some (w1, [Open p None])
      | (Some err, w1) \<Rightarrow>
          Option.bind (open_loop P p w1) (\<lambda>(w2, evs). Some (w2, retry_events p err @ evs)))"

text \<open>
  Consecutive \<open>set_option\<close> statements outside any \<open>try\<close>: the first one that throws
  ends the sequence with its exception.
\<close>

fun set_options ::
  "'w platform \<Rightarrow> serial_option list \<Rightarrow> 'w \<Rightarrow> system_error option \<times> 'w \<times> event list"
where
  "set_options P [] w = (None, w, [])"
| "set_options P (opt # opts) w =
     (case set_option P opt w of
        (Some e, w1) \<Rightarrow> (Some e, w1, [SetOption opt (Some e)])
      | (None, w1) \<Rightarrow>
          (case set_options P opts w1 of (r, w2, evs) \<Rightarrow> (r, w2, SetOption opt None # evs)))"

text \<open>The \<open>if (flowcontrol_)\<close> statement on \<open>tio\<close>.\<close>

definition flowcontrol_flags :: "'w platform \<Rightarrow> bool \<Rightarrow> termios \<Rightarrow> termios" where
  "flowcontrol_flags P fc tio =
     (if fc
      then tio\<lparr>c_iflag := c_iflag tio AND NOT (IXOFF P OR IXON P),
               c_cflag := c_cflag tio OR CRTSCTS P\<rparr>
      else tio\<lparr>c_iflag := c_iflag tio AND NOT (IXOFF P OR IXON P),
               c_cflag := c_cflag tio AND NOT (CRTSCTS P)\<rparr>)"

text \<open>The first statement of \<open>connect\<close>: \<open>if (serialPort_.is_open()) serialPort_.close();\<close>\<close>

definition close_if_open :: "'w platform \<Rightarrow> 'w \<Rightarrow> system_error option \<times> 'w \<times> event list" where
  "close_if_open P w =
     (if port_is_open P w
      then (case port_close P w of (r, w1) \<Rightarrow> (r, w1, [IsOpen True, Close r]))
      else (None, w, [IsOpen False]))"

text \<open>
  The statements from \<open>tcgetattr\<close> to the second \<open>ioctl\<close>. The locals \<open>tio\<close> and
  \<open>serialInfo\<close> are declared without an initialiser: what they hold before
  \<open>tcgetattr\<close> and the \<open>TIOCGSERIAL\<close> request fill them is the argument \<open>tio0\<close>,
  \<open>serialInfo0\<close>. The values that \<open>tcgetattr\<close>, \<open>tcsetattr\<close> and \<open>ioctl\<close> return
  are not read by the source, so these statements have one way to end.
\<close>

definition terminal_setup ::
  "'w platform \<Rightarrow> bool \<Rightarrow> termios \<Rightarrow> serial_struct \<Rightarrow> 'w \<Rightarrow> 'w \<times> event list"
where
  "terminal_setup P fc tio0 serialInfo0 w =
     (case tcgetattr P tio0 w of
        ((rc1, tio1), w1) \<Rightarrow>
          (case tcsetattr P (cfmakeraw P (flowcontrol_flags P fc tio1)) w1 of
             (rc2, w2) \<Rightarrow>
               (case ioctl_TIOCGSERIAL P serialInfo0 w2 of
                  ((rc3, serialInfo1), w3) \<Rightarrow>
                    (case ioctl_TIOCSSERIAL P
                            (serialInfo1\<lparr>flags := flags serialInfo1 OR ASYNC_LOW_LATENCY P\<rparr>)
                            w3 of
                       (rc4, w4) \<Rightarrow>
                         (w4,
                          [TcGetAttr rc1,
                           TcSetAttr (cfmakeraw P (flowcontrol_flags P fc tio1)) rc2,
                           IoctlTIOCGSERIAL rc3,
                           IoctlTIOCSSERIAL
                             (serialInfo1\<lparr>flags := flags serialInfo1 OR ASYNC_LOW_LATENCY P\<rparr>)
                             rc4])))))"

text \<open>
  The statements of \<open>SerialIo::connect\<close> before its \<open>return\<close>: they end with the
  exception that \<open>close\<close> or a \<open>set_option\<close> throws, or with nothing thrown, or not at
  all (the open loop).
\<close>

definition connect_setup ::
  "'w platform \<Rightarrow> SerialIo \<Rightarrow> termios \<Rightarrow> serial_struct \<Rightarrow> 'w \<Rightarrow>
   (system_error option \<times> 'w \<times> event list) option"
where
  "connect_setup P sio tio0 serialInfo0 w =
     (case close_if_open P w of
        (Some e, w1, ev1) \<Rightarrow> Some (Some e, w1, ev1)
      | (None, w1, ev1) \<Rightarrow>
          (case open_loop P (port sio) w1 of
             None \<Rightarrow> None
           | Some (w2, ev2) \<Rightarrow>
               (case set_options P
                       [baud_rate (baudrate sio), parity parity_none, character_size 8,
                        stop_bits stop_bits_one, flow_control flow_control_none] w2 of
                  (Some e, w3, ev3) \<Rightarrow> Some (Some e, w3, ev1 @ ev2 @ ev3)
                | (None, w3, ev3) \<Rightarrow>
                    (case terminal_setup P (flowcontrol sio) tio0 serialInfo0 w3 of
                       (w4, ev4) \<Rightarrow> Some (None, w4, ev1 @ ev2 @ ev3 @ ev4)))))"

text \<open>
  \<open>SerialIo::connect\<close>: the statements above, then \<open>return setBaudrate();\<close>. The
  class declares \<open>setBaurate\<close> and no other function that sets the rate, and that one is
  the function called here.
\<close>

definition SerialIo_connect ::
  "'w platform \<Rightarrow> SerialIo \<Rightarrow> termios \<Rightarrow> serial_struct \<Rightarrow> 'w \<Rightarrow>
   (outcome \<times> 'w \<times> event list) option"
where
  "SerialIo_connect P sio tio0 serialInfo0 w =
     (case connect_setup P sio tio0 serialInfo0 w of
        None \<Rightarrow> None
      | Some (Some e, w1, ev1) \<Rightarrow> Some (Thrown e, w1, ev1)
      | Some (None, w1, ev1) \<Rightarrow>
          (case setBaurate P sio w1 of (out, w2, ev2) \<Rightarrow> Some (out, w2, ev1 @ ev2)))"

section \<open>\<open>TcpIo\<close>\<close>




section \<open>Observations on a run\<close>

text \<open>The rates passed to \<open>set_option\<close>, in the order of the calls.\<close>

fun set_attempts :: "event list \<Rightarrow> u32 list" where
  "set_attempts [] = []"
| "set_attempts (SetOption (baud_rate r) res # evs) = r # set_attempts evs"
| "set_attempts (ev # evs) = set_attempts evs"

text \<open>The rates read back by \<open>get_option\<close>, in the order of the calls.\<close>

fun readbacks :: "event list \<Rightarrow> u32 list" where
  "readbacks [] = []"
| "readbacks (GetOption (Inr v) # evs) = v # readbacks evs"
| "readbacks (ev # evs) = readbacks evs"

text \<open>A \<open>set_option\<close> or \<open>get_option\<close> call that threw.\<close>

fun op_failed :: "event \<Rightarrow> bool" where
  "op_failed (SetOption opt (Some e)) = True"
| "op_failed (GetOption (Inl e)) = True"
| "op_failed ev = False"

text \<open>A call on the serial port, the terminal or the socket (not a log, not a sleep).\<close>

fun is_call :: "event \<Rightarrow> bool" where
  "is_call (Log lvl msg) = False"
| "is_call (SleepFor ms) = False"
| "is_call ev = True"



text \<open>The condition of the \<open>continue\<close> in the loop.\<close>

definition skip_cond :: "u32 \<Rightarrow> u8 \<Rightarrow> u32 \<Rightarrow> bool" where
  "skip_cond target i c \<longleftrightarrow> c \<ge> baudrates ! unat i \<and> target > baudrates ! unat i"

text \<open>The events of an iteration that sets the rate and reads \<open>v\<close> back.\<close>

definition step_events :: "u8 \<Rightarrow> u32 \<Rightarrow> event list" where
  "step_events i v =
     [SetOption (baud_rate (baudrates ! unat i)) None, SleepFor 500, GetOption (Inr v),
      Log DEBUG (''Set ASIO baudrate to '' @ to_string (unat v))]"

text \<open>
  How often the body of the \<open>for\<close> loop was entered in a run from index 0 that left the
  loop with \<open>i = j\<close>: for the indices below \<open>j\<close> when the loop's condition ended it, and
  for \<open>j\<close> too when a \<open>break\<close> or a \<open>return\<close> in the body did.
\<close>

definition iterations :: "loop_exit \<Rightarrow> u8 \<Rightarrow> nat" where
  "iterations x j = (if x = Exhausted then unat j else Suc (unat j))"

text \<open>
  The exceptions of \<open>n\<close> attempts to open the port that fail one after the other, and the
  world after them; \<open>None\<close> when one of these attempts opens the port.
\<close>

fun open_failures ::
  "'w platform \<Rightarrow> string \<Rightarrow> nat \<Rightarrow> 'w \<Rightarrow> (system_error list \<times> 'w) option"
where
  "open_failures P p 0 w = Some ([], w)"
| "open_failures P p (Suc n) w =
     (case port_open P p w of
        (None, w1) \<Rightarrow> None
      | (Some err, w1) \<Rightarrow>
          (case open_failures P p n w1 of
             None \<Rightarrow> None
           | Some (errs, w2) \<Rightarrow> Some (err # errs, w2)))"

section \<open>A simulated serial port\<close>

text \<open>
  The simulated device: whether the port is open, the rate of the line, and how many
  attempts to open it will still fail before the device node appears.
\<close>

record sim =
  sim_is_open :: bool
  sim_rate :: u32
  sim_absent :: nat

definition ENOENT :: system_error where
  "ENOENT = SystemError ''open: No such file or directory'' ''boost::system::system_error''"

text \<open>
  Every call succeeds, and \<open>get_option\<close> reads back the rate that the last
  \<open>set_option\<close> wrote.
\<close>

definition sim_platform :: "sim platform" where
  "sim_platform =
     \<lparr>port_is_open = sim_is_open,
      port_close = (\<lambda>w. (None, w\<lparr>sim_is_open := False\<rparr>)),
      port_open = (\<lambda>p w. if sim_absent w = 0 then (None, w\<lparr>sim_is_open := True\<rparr>)
                          else (Some ENOENT, w\<lparr>sim_absent := sim_absent w - 1\<rparr>)),
      set_option = (\<lambda>opt w. case opt of baud_rate r \<Rightarrow> (None, w\<lparr>sim_rate := r\<rparr>)
                                         | _ \<Rightarrow> (None, w)),
      get_option = (\<lambda>w. (Inr (sim_rate w), w)),
      tcgetattr = (\<lambda>tio w. ((0, \<lparr>c_iflag = 0, c_oflag = 0, c_cflag = 0, c_lflag = 0\<rparr>), w)),
      cfmakeraw = (\<lambda>tio. tio),
      tcsetattr = (\<lambda>tio w. (0, w)),
      ioctl_TIOCGSERIAL = (\<lambda>si w. ((0, \<lparr>flags = 0\<rparr>), w)),
      ioctl_TIOCSSERIAL = (\<lambda>si w. (0, w)),
      resolve = (\<lambda>ip prt w. (Inr (Endpoint ip prt, []), w)),
      socket_connect = (\<lambda>ep w. (None, w)),
      socket_set_no_delay = (\<lambda>b w. (None, w)),
      IXON = 0x400,
      IXOFF = 0x1000,
      CRTSCTS = 0x80000000,
      ASYNC_LOW_LATENCY = 0x2000\<rparr>"

text \<open>A port that accepts every \<open>set_option\<close> and keeps its rate.\<close>

definition stuck_platform :: "sim platform" where
  "stuck_platform = sim_platform\<lparr>set_option := (\<lambda>opt w. (None, w))\<rparr>"

text \<open>A device node that never appears.\<close>

definition absent_platform :: "sim platform" where
  "absent_platform = sim_platform\<lparr>port_open := (\<lambda>p w. (Some ENOENT, w))\<rparr>"

text \<open>A terminal on which \<open>tcgetattr\<close>, \<open>tcsetattr\<close> and \<open>ioctl\<close> all fail with \<open>-1\<close>.\<close>

definition notty_platform :: "sim platform" where
  "notty_platform =
     sim_platform\<lparr>tcgetattr := (\<lambda>tio w. ((- 1, tio), w)),
                   tcsetattr := (\<lambda>tio w. (- 1, w)),
                   ioctl_TIOCGSERIAL := (\<lambda>si w. ((- 1, si), w)),
                   ioctl_TIOCSSERIAL := (\<lambda>si w. (- 1, w))\<rparr>"

text \<open>What the locals \<open>tio\<close> and \<open>serialInfo\<close> hold at first in the runs below.\<close>

definition zero_termios :: termios where
  "zero_termios = \<lparr>c_iflag = 0, c_oflag = 0, c_cflag = 0, c_lflag = 0\<rparr>"

definition zero_serial_struct :: serial_struct where
  "zero_serial_struct = \<lparr>flags = 0\<rparr>"

text \<open>A port on which setting the rate 38400 throws, and which keeps its rate.\<close>

definition EIO :: system_error where
  "EIO = SystemError ''set_option: Input/output error'' ''boost::system::system_error''"

definition flaky_platform :: "sim platform" where
  "flaky_platform =
     sim_platform\<lparr>set_option :=
       (\<lambda>opt w. if opt = baud_rate 38400 then (Some EIO, w) else (None, w))\<rparr>"

text \<open>The device at 9600 as the runs below find it, before and after it is opened.\<close>

definition unplugged :: sim where
  "unplugged = \<lparr>sim_is_open = False, sim_rate = 9600, sim_absent = 0\<rparr>"

definition plugged :: sim where
  "plugged = \<lparr>sim_is_open = True, sim_rate = 9600, sim_absent = 0\<rparr>"

text \<open>A \<open>SerialIo\<close> object with the target rate 115200.\<close>

definition to_115200 :: SerialIo where
  "to_115200 = \<lparr>flowcontrol = False, port = ''/dev/ttyACM0'', baudrate = 115200\<rparr>"

text \<open>The opened device running at 230400, above the target of the runs below.\<close>

definition at_230400 :: sim where
  "at_230400 = \<lparr>sim_is_open = True, sim_rate = 230400, sim_absent = 0\<rparr>"

text \<open>An open port on a device that is about to go away for two attempts to open it.\<close>

definition reconnecting :: sim where
  "reconnecting = \<lparr>sim_is_open = True, sim_rate = 9600, sim_absent = 2\<rparr>"

text \<open>The opened device once the rate 115200 has been set.\<close>

definition at_115200 :: sim where
  "at_115200 = \<lparr>sim_is_open = True, sim_rate = 115200, sim_absent = 0\<rparr>"






section \<open>The baud-rate table\<close>

lemma baudrates_length: "length baudrates = 21"
  by (simp add: baudrates_def)

lemma baudrates_strict: "sorted_wrt (<) baudrates"
  by (simp add: baudrates_def)

lemma drop_baudrates:
  "unat (i :: u8) < 21 \<Longrightarrow>
   drop (unat i) baudrates = baudrates ! unat i # drop (unat (i + 1)) baudrates"
  by (simp add: Cons_nth_drop_Suc unat_u8_succ baudrates_length)

lemma subseq_sorted_wrt: "subseq xs ys \<Longrightarrow> sorted_wrt R ys \<Longrightarrow> sorted_wrt R xs"
proof (induction rule: list_emb.induct)
  case (list_emb_Cons xs ys y)
  then show ?case by simp
next
  case (list_emb_Cons2 x y xs ys)
  then show ?case by (auto dest: list_emb_set)
qed simp

lemma subseq_subset: "subseq xs ys \<Longrightarrow> set xs \<subseteq> set ys"
  by (auto elim: list_emb_set)

section \<open>Observations of the messages\<close>

lemma set_attempts_append: "set_attempts (xs @ ys) = set_attempts xs @ set_attempts ys"
  by (induction xs rule: set_attempts.induct) auto

lemma set_attempts_logs [simp]:
  "set_attempts (set_option_failed e) = []"
  "set_attempts (get_option_failed e) = []"
  "set_attempts entry_logs = []"
  "set_attempts (current_log v # evs) = set_attempts evs"
  "set_attempts (leaving_log c # evs) = set_attempts evs"
  by (simp_all add: set_option_failed_def get_option_failed_def entry_logs_def
        current_log_def leaving_log_def)

lemma set_attempts_step [simp]: "set_attempts (step_events i v) = [baudrates ! unat i]"
  by (simp add: step_events_def)

section \<open>The loop, one iteration at a time\<close>

lemma baud_loop_exhausted:
  "\<not> unat i < 21 \<Longrightarrow> baud_loop P target i c w = (Exhausted, i, c, w, [])"
  by (simp add: baud_loop.simps baudrates_length)

lemma baud_loop_break:
  "unat i < 21 \<Longrightarrow> c = target \<Longrightarrow> baud_loop P target i c w = (Break, i, c, w, [])"
  by (simp add: baud_loop.simps baudrates_length)

lemma baud_loop_skip:
  "unat i < 21 \<Longrightarrow> c \<noteq> target \<Longrightarrow> skip_cond target i c \<Longrightarrow>
   baud_loop P target i c w = baud_loop P target (i + 1) c w"
  by (simp add: baud_loop.simps [of P target i] baudrates_length skip_cond_def)

lemma baud_loop_set_fail:
  "unat i < 21 \<Longrightarrow> c \<noteq> target \<Longrightarrow> \<not> skip_cond target i c \<Longrightarrow>
   set_option P (baud_rate (baudrates ! unat i)) w = (Some e, w1) \<Longrightarrow>
   baud_loop P target i c w =
     (ReturnFalse, i, c, w1,
      SetOption (baud_rate (baudrates ! unat i)) (Some e) # set_option_failed e)"
  by (auto simp: baud_loop.simps [of P target i] baudrates_length skip_cond_def)

lemma baud_loop_get_fail:
  "unat i < 21 \<Longrightarrow> c \<noteq> target \<Longrightarrow> \<not> skip_cond target i c \<Longrightarrow>
   set_option P (baud_rate (baudrates ! unat i)) w = (None, w1) \<Longrightarrow>
   get_option P w1 = (Inl e, w2) \<Longrightarrow>
   baud_loop P target i c w =
     (ReturnFalse, i, c, w2,
      [SetOption (baud_rate (baudrates ! unat i)) None, SleepFor 500, GetOption (Inl e)]
      @ get_option_failed e)"
  by (auto simp: baud_loop.simps [of P target i] baudrates_length skip_cond_def)

lemma baud_loop_step:
  "unat i < 21 \<Longrightarrow> c \<noteq> target \<Longrightarrow> \<not> skip_cond target i c \<Longrightarrow>
   set_option P (baud_rate (baudrates ! unat i)) w = (None, w1) \<Longrightarrow>
   get_option P w1 = (Inr v, w2) \<Longrightarrow>
   baud_loop P target i c w =
     (case baud_loop P target (i + 1) v w2 of
        (x, j, c', w3, evs) \<Rightarrow> (x, j, c', w3, step_events i v @ evs))"
  by (auto simp: baud_loop.simps [of P target i] baudrates_length skip_cond_def step_events_def)

text \<open>Induction over the iterations of the loop, one case for each path through its body.\<close>

lemma baud_loop_induct [case_names exhausted break skip set_fail get_fail step]:
  assumes "\<And>i c w. \<not> unat i < 21 \<Longrightarrow> Q i c w"
    and "\<And>i c w. unat i < 21 \<Longrightarrow> c = target \<Longrightarrow> Q i c w"
    and "\<And>i c w. unat i < 21 \<Longrightarrow> c \<noteq> target \<Longrightarrow> skip_cond target i c \<Longrightarrow>
           Q (i + 1) c w \<Longrightarrow> Q i c w"
    and "\<And>i c w e w1. unat i < 21 \<Longrightarrow> c \<noteq> target \<Longrightarrow> \<not> skip_cond target i c \<Longrightarrow>
           set_option P (baud_rate (baudrates ! unat i)) w = (Some e, w1) \<Longrightarrow> Q i c w"
    and "\<And>i c w w1 e w2. unat i < 21 \<Longrightarrow> c \<noteq> target \<Longrightarrow> \<not> skip_cond target i c \<Longrightarrow>
           set_option P (baud_rate (baudrates ! unat i)) w = (None, w1) \<Longrightarrow>
           get_option P w1 = (Inl e, w2) \<Longrightarrow> Q i c w"
    and "\<And>i c w w1 v w2. unat i < 21 \<Longrightarrow> c \<noteq> target \<Longrightarrow> \<not> skip_cond target i c \<Longrightarrow>
           set_option P (baud_rate (baudrates ! unat i)) w = (None, w1) \<Longrightarrow>
           get_option P w1 = (Inr v, w2) \<Longrightarrow> Q (i + 1) v w2 \<Longrightarrow> Q i c w"
  shows "Q i c w"
proof (induction "21 - unat i" arbitrary: i c w rule: less_induct)
  case (less i c w)
  have IH: "Q (i + 1) c' w'" if "unat i < 21" for c' w'
  proof (rule less)
    show "21 - unat (i + 1) < 21 - unat i"
      using that by (simp add: unat_u8_succ)
  qed
  show ?case
  proof (cases "unat i < 21")
    case False
    then show ?thesis by (rule assms(1))
  next
    case lt: True
    show ?thesis
    proof (cases "c = target")
      case True
      with lt show ?thesis by (rule assms(2))
    next
      case ne: False
      show ?thesis
      proof (cases "skip_cond target i c")
        case True
        show ?thesis by (rule assms(3)) (use lt ne IH True in simp_all)
      next
        case ns: False
        obtain r w1 where s: "set_option P (baud_rate (baudrates ! unat i)) w = (r, w1)"
          by (cases "set_option P (baud_rate (baudrates ! unat i)) w")
        show ?thesis
        proof (cases r)
          case (Some e)
          show ?thesis by (rule assms(4) [where e = e and ?w1.0 = w1]) (use lt ne ns s Some in simp_all)
        next
          case None
          obtain g w2 where g: "get_option P w1 = (g, w2)"
            by (cases "get_option P w1")
          show ?thesis
          proof (cases g)
            case (Inl e)
            show ?thesis
              by (rule assms(5) [where e = e and ?w1.0 = w1 and ?w2.0 = w2])
                 (use lt ne ns s None g Inl in simp_all)
          next
            case (Inr v)
            show ?thesis
              by (rule assms(6) [where v = v and ?w1.0 = w1 and ?w2.0 = w2])
                 (use lt ne ns s None g Inr IH in simp_all)
          qed
        qed
      qed
    qed
  qed
qed

lemma baud_loop_sets:
  "baud_loop P target i c w = (x, j, c', w', evs) \<Longrightarrow>
   subseq (set_attempts evs) (drop (unat i) baudrates)"
proof (induction i c w arbitrary: x j c' w' evs
       rule: baud_loop_induct [where P = P and target = target])
  case (exhausted i c w)
  then show ?case by (simp add: baud_loop_exhausted)
next
  case (break i c w)
  then show ?case by (simp add: baud_loop_break)
next
  case (skip i c w)
  then show ?case by (auto simp: baud_loop_skip drop_baudrates)
next
  case (set_fail i c w e w1)
  then show ?case by (auto simp: baud_loop_set_fail drop_baudrates)
next
  case (get_fail i c w w1 e w2)
  then show ?case by (auto simp: baud_loop_get_fail drop_baudrates)
next
  case (step i c w w1 v w2)
  then show ?case
    by (auto simp: baud_loop_step drop_baudrates set_attempts_append split: prod.splits)
qed

section \<open>\<open>setBaurate\<close>, by the result of its first \<open>get_option\<close>\<close>

lemma setBaurate_get_fail:
  "get_option P w = (Inl e, w1) \<Longrightarrow>
   setBaurate P sio w =
     (Returned False, w1, entry_logs @ [GetOption (Inl e)] @ get_option_failed e)"
  by (simp add: setBaurate_def)

lemma setBaurate_loop:
  "get_option P w = (Inr v, w1) \<Longrightarrow>
   baud_loop P (baudrate sio) 0 v w1 = (x, j, c, w2, evs) \<Longrightarrow>
   setBaurate P sio w =
     (if x = ReturnFalse
      then (Returned False, w2, entry_logs @ [GetOption (Inr v), current_log v] @ evs)
      else (FlowedOffEnd, w2,
            entry_logs @ [GetOption (Inr v), current_log v] @ evs @ [leaving_log c]))"
  by (simp add: setBaurate_def)

lemma setBaurate_sets:
  "subseq (set_attempts (snd (snd (setBaurate P sio w)))) baudrates"
proof (cases "get_option P w")
  case (Pair g w1)
  show ?thesis
  proof (cases g)
    case (Inl e)
    with Pair show ?thesis by (simp add: setBaurate_get_fail set_attempts_append)
  next
    case (Inr v)
    obtain x j c w2 evs where l: "baud_loop P (baudrate sio) 0 v w1 = (x, j, c, w2, evs)"
      by (metis prod_cases5)
    from baud_loop_sets [OF l] have "subseq (set_attempts evs) baudrates" by simp
    with Pair Inr l show ?thesis
      by (simp add: setBaurate_loop set_attempts_append)
  qed
qed

section \<open>The rates that the negotiation sets\<close>

text \<open>
  C10: whatever the port does, every rate that \<open>setBaurate\<close> passes to \<open>set_option\<close>
  is an entry of the table \<open>baudrates\<close>, the rates are passed in the order of the table
  (they are a subsequence of it), and so each is greater than the one before. The table
  has 21 entries and is strictly increasing.
\<close>

theorem setBaurate_sets_ascending_from_table:
  "subseq (set_attempts (snd (snd (setBaurate P sio w)))) baudrates \<and>
   set (set_attempts (snd (snd (setBaurate P sio w)))) \<subseteq> set baudrates \<and>
   sorted_wrt (<) (set_attempts (snd (snd (setBaurate P sio w)))) \<and>
   length baudrates = 21 \<and> sorted_wrt (<) baudrates \<and>
   hd baudrates = 1200 \<and> last baudrates = 4000000"
proof -
  have "subseq (set_attempts (snd (snd (setBaurate P sio w)))) baudrates"
    by (rule setBaurate_sets)
  moreover have "hd baudrates = 1200" "last baudrates = 4000000"
    by (simp_all add: baudrates_def)
  ultimately show ?thesis
    using subseq_sorted_wrt [OF _ baudrates_strict] subseq_subset baudrates_length
      baudrates_strict
    by blast
qed

section \<open>The length of a negotiation\<close>

lemma readbacks_append: "readbacks (xs @ ys) = readbacks xs @ readbacks ys"
  by (induction xs rule: readbacks.induct) auto

lemma readbacks_logs [simp]:
  "readbacks (set_option_failed e) = []"
  "readbacks (get_option_failed e) = []"
  "readbacks entry_logs = []"
  "readbacks (current_log v # evs) = readbacks evs"
  "readbacks (leaving_log c # evs) = readbacks evs"
  by (simp_all add: set_option_failed_def get_option_failed_def entry_logs_def
        current_log_def leaving_log_def)

lemma readbacks_step [simp]: "readbacks (step_events i v) = [v]"
  by (simp add: step_events_def)

lemma length_logs [simp]:
  "length (set_option_failed e) = 2" "length (get_option_failed e) = 2"
  "length (step_events i v) = 4"
  by (simp_all add: set_option_failed_def get_option_failed_def step_events_def)

lemma baud_loop_bounds:
  "baud_loop P target i c w = (x, j, c', w', evs) \<Longrightarrow> unat i \<le> 21 \<Longrightarrow>
   unat i \<le> unat j \<and> unat j \<le> 21 \<and> (x = Exhausted \<longleftrightarrow> unat j = 21) \<and>
   length (set_attempts evs) \<le> 21 - unat i \<and>
   length (readbacks evs) \<le> 21 - unat i \<and>
   length evs \<le> 4 * (21 - unat i) + 1"
proof (induction i c w arbitrary: x j c' w' evs
       rule: baud_loop_induct [where P = P and target = target])
  case (exhausted i c w)
  then show ?case by (auto simp: baud_loop_exhausted)
next
  case (break i c w)
  then show ?case by (auto simp: baud_loop_break)
next
  case (skip i c w)
  from skip.prems skip.hyps have "baud_loop P target (i + 1) c w = (x, j, c', w', evs)"
    by (simp add: baud_loop_skip)
  from skip.IH [OF this] skip.hyps show ?case by (auto simp: unat_u8_succ)
next
  case (set_fail i c w e w1)
  then show ?case by (auto simp: baud_loop_set_fail)
next
  case (get_fail i c w w1 e w2)
  then show ?case by (auto simp: baud_loop_get_fail)
next
  case (step i c w w1 v w2)
  obtain x2 j2 c2 w3 evs2 where r: "baud_loop P target (i + 1) v w2 = (x2, j2, c2, w3, evs2)"
    by (metis prod_cases5)
  with step.prems step.hyps have e: "x = x2" "j = j2" "evs = step_events i v @ evs2"
    by (simp_all add: baud_loop_step)
  from step.IH [OF r] step.hyps e show ?case
    by (auto simp: unat_u8_succ set_attempts_append readbacks_append)
qed

text \<open>The value of \<open>current_baudrate\<close> at the end is the rate last read.\<close>

lemma baud_loop_current:
  "baud_loop P target i c w = (x, j, c', w', evs) \<Longrightarrow> c' = last (c # readbacks evs)"
proof (induction i c w arbitrary: x j c' w' evs
       rule: baud_loop_induct [where P = P and target = target])
  case (exhausted i c w)
  then show ?case by (auto simp: baud_loop_exhausted)
next
  case (break i c w)
  then show ?case by (auto simp: baud_loop_break)
next
  case (skip i c w)
  then show ?case by (simp add: baud_loop_skip)
next
  case (set_fail i c w e w1)
  then show ?case by (auto simp: baud_loop_set_fail)
next
  case (get_fail i c w w1 e w2)
  then show ?case by (auto simp: baud_loop_get_fail)
next
  case (step i c w w1 v w2)
  obtain x2 j2 c2 w3 evs2 where r: "baud_loop P target (i + 1) v w2 = (x2, j2, c2, w3, evs2)"
    by (metis prod_cases5)
  with step.prems step.hyps have e: "c' = c2" "evs = step_events i v @ evs2"
    by (simp_all add: baud_loop_step)
  from step.IH [OF r] e show ?case by (simp add: readbacks_append)
qed

text \<open>
  C9: whatever the port answers, a run of the loop from index 0 enters the loop body at
  most 21 times, the length of the table, and then is over; so it calls \<open>set_option\<close>
  at most 21 times, reads the rate back at most 21 times and leaves at most 85 events.
  Nothing is assumed about the rates read back: they may differ from the target forever.
\<close>

theorem baud_loop_at_most_21_iterations:
  "(case baud_loop P target 0 c w of
      (x, j, c', w', evs) \<Rightarrow>
        iterations x j \<le> length baudrates \<and> length baudrates = 21 \<and>
        length (set_attempts evs) \<le> 21 \<and> length (readbacks evs) \<le> 21 \<and>
        length evs \<le> 85)"
proof -
  obtain x j c' w' evs where r: "baud_loop P target 0 c w = (x, j, c', w', evs)"
    by (metis prod_cases5)
  from baud_loop_bounds [OF r] show ?thesis
    by (auto simp: r iterations_def baudrates_length)
qed

section \<open>Runs that a failed call ends\<close>

lemma op_failed_logs [simp]:
  "\<not> list_ex op_failed (set_option_failed e)"
  "\<not> list_ex op_failed (get_option_failed e)"
  "\<not> list_ex op_failed entry_logs"
  "\<not> op_failed (current_log v)"
  "\<not> op_failed (leaving_log c)"
  "\<not> list_ex op_failed (step_events i v)"
  by (simp_all add: set_option_failed_def get_option_failed_def entry_logs_def
        current_log_def leaving_log_def step_events_def)

lemma is_call_logs [simp]:
  "\<not> list_ex is_call (set_option_failed e)"
  "\<not> list_ex is_call (get_option_failed e)"
  by (simp_all add: set_option_failed_def get_option_failed_def)

text \<open>The events of a run that a failed call ended.\<close>

lemma baud_loop_outcome:
  "baud_loop P target i c w = (x, j, c', w', evs) \<Longrightarrow>
   (x = ReturnFalse \<and>
    (\<exists>pre e. \<not> list_ex op_failed pre \<and>
       (evs = pre @ GetOption (Inl e) # get_option_failed e \<or>
        (\<exists>r. evs = pre @ SetOption (baud_rate r) (Some e) # set_option_failed e)))) \<or>
   (x \<noteq> ReturnFalse \<and> \<not> list_ex op_failed evs)"
proof (induction i c w arbitrary: x j c' w' evs
       rule: baud_loop_induct [where P = P and target = target])
  case (exhausted i c w)
  then show ?case by (auto simp: baud_loop_exhausted)
next
  case (break i c w)
  then show ?case by (auto simp: baud_loop_break)
next
  case (skip i c w)
  then show ?case by (simp add: baud_loop_skip)
next
  case (set_fail i c w e w1)
  then have "x = ReturnFalse"
    "evs = [] @ SetOption (baud_rate (baudrates ! unat i)) (Some e) # set_option_failed e"
    by (auto simp: baud_loop_set_fail)
  moreover have "\<not> list_ex op_failed []" by simp
  ultimately show ?case by blast
next
  case (get_fail i c w w1 e w2)
  then have "x = ReturnFalse"
    "evs = [SetOption (baud_rate (baudrates ! unat i)) None, SleepFor 500]
           @ GetOption (Inl e) # get_option_failed e"
    by (auto simp: baud_loop_get_fail)
  moreover have "\<not> list_ex op_failed [SetOption (baud_rate (baudrates ! unat i)) None, SleepFor 500]"
    by simp
  ultimately show ?case by blast
next
  case (step i c w w1 v w2)
  obtain x2 j2 c2 w3 evs2 where r: "baud_loop P target (i + 1) v w2 = (x2, j2, c2, w3, evs2)"
    by (metis prod_cases5)
  with step.prems step.hyps have e: "x = x2" "evs = step_events i v @ evs2"
    by (simp_all add: baud_loop_step)
  from step.IH [OF r] show ?case
  proof
    assume a: "x2 = ReturnFalse \<and>
      (\<exists>pre e. \<not> list_ex op_failed pre \<and>
         (evs2 = pre @ GetOption (Inl e) # get_option_failed e \<or>
          (\<exists>r. evs2 = pre @ SetOption (baud_rate r) (Some e) # set_option_failed e)))"
    then obtain pre e where p: "\<not> list_ex op_failed pre"
      "evs2 = pre @ GetOption (Inl e) # get_option_failed e \<or>
       (\<exists>r. evs2 = pre @ SetOption (baud_rate r) (Some e) # set_option_failed e)"
      by blast
    have "\<not> list_ex op_failed (step_events i v @ pre)" using p(1) by simp
    moreover have "evs = (step_events i v @ pre) @ GetOption (Inl e) # get_option_failed e \<or>
       (\<exists>r. evs = (step_events i v @ pre) @ SetOption (baud_rate r) (Some e) # set_option_failed e)"
      using p(2) e(2) by auto
    ultimately show ?thesis using a e(1) by blast
  next
    assume "x2 \<noteq> ReturnFalse \<and> \<not> list_ex op_failed evs2"
    with e show ?thesis by simp
  qed
qed

lemma setBaurate_outcome:
  "setBaurate P sio w = (out, w', evs) \<Longrightarrow>
   (out = Returned False \<and>
    (\<exists>pre e. \<not> list_ex op_failed pre \<and>
       (evs = pre @ GetOption (Inl e) # get_option_failed e \<or>
        (\<exists>r. evs = pre @ SetOption (baud_rate r) (Some e) # set_option_failed e)))) \<or>
   (out = FlowedOffEnd \<and> \<not> list_ex op_failed evs \<and> (\<exists>c. last evs = leaving_log c))"
proof (cases "get_option P w")
  case (Pair g w1)
  assume s: "setBaurate P sio w = (out, w', evs)"
  show ?thesis
  proof (cases g)
    case (Inl e)
    with Pair s have "out = Returned False"
      "evs = entry_logs @ GetOption (Inl e) # get_option_failed e"
      by (simp_all add: setBaurate_get_fail)
    moreover have "\<not> list_ex op_failed entry_logs" by simp
    ultimately show ?thesis by blast
  next
    case (Inr v)
    obtain x j c w2 evs2 where l: "baud_loop P (baudrate sio) 0 v w1 = (x, j, c, w2, evs2)"
      by (metis prod_cases5)
    let ?h = "entry_logs @ [GetOption (Inr v), current_log v]"
    have h: "\<not> list_ex op_failed ?h" by simp
    from baud_loop_outcome [OF l] show ?thesis
    proof
      assume a: "x = ReturnFalse \<and>
        (\<exists>pre e. \<not> list_ex op_failed pre \<and>
           (evs2 = pre @ GetOption (Inl e) # get_option_failed e \<or>
            (\<exists>r. evs2 = pre @ SetOption (baud_rate r) (Some e) # set_option_failed e)))"
      then obtain pre e where p: "\<not> list_ex op_failed pre"
        "evs2 = pre @ GetOption (Inl e) # get_option_failed e \<or>
         (\<exists>r. evs2 = pre @ SetOption (baud_rate r) (Some e) # set_option_failed e)"
        by blast
      from a Pair Inr l s have o: "out = Returned False" "evs = ?h @ evs2"
        by (simp_all add: setBaurate_loop)
      have "\<not> list_ex op_failed (?h @ pre)" using p(1) h by simp
      moreover have "evs = (?h @ pre) @ GetOption (Inl e) # get_option_failed e \<or>
         (\<exists>r. evs = (?h @ pre) @ SetOption (baud_rate r) (Some e) # set_option_failed e)"
        using p(2) o(2) by auto
      ultimately show ?thesis using o(1) by blast
    next
      assume a: "x \<noteq> ReturnFalse \<and> \<not> list_ex op_failed evs2"
      with Pair Inr l s have o: "out = FlowedOffEnd" "evs = ?h @ evs2 @ [leaving_log c]"
        by (simp_all add: setBaurate_loop)
      with a h show ?thesis by auto
    qed
  qed
qed

lemma first_failure_unique:
  "xs @ a # ys = xs' @ b # ys' \<Longrightarrow> Pr a \<Longrightarrow> Pr b \<Longrightarrow>
   \<not> list_ex Pr xs' \<Longrightarrow> \<not> list_ex Pr ys' \<Longrightarrow> xs = xs' \<and> a = b \<and> ys = ys'"
proof (induction xs arbitrary: xs')
  case Nil
  then show ?case by (cases xs') auto
next
  case (Cons x xs)
  show ?case
  proof (cases xs')
    case Nil
    with Cons.prems have "ys' = xs @ a # ys" by simp
    with Cons.prems show ?thesis by simp
  next
    case (Cons y zs)
    with Cons.prems Cons.IH [of zs] show ?thesis by simp
  qed
qed

section \<open>Evaluating runs on the simulated port\<close>

lemma digit_chars:
  "digit_char 0 = CHR ''0''" "digit_char 1 = CHR ''1''" "digit_char 2 = CHR ''2''"
  "digit_char 3 = CHR ''3''" "digit_char 4 = CHR ''4''" "digit_char 5 = CHR ''5''"
  "digit_char 6 = CHR ''6''" "digit_char 7 = CHR ''7''" "digit_char 8 = CHR ''8''"
  "digit_char 9 = CHR ''9''"
  by (simp_all add: digit_char_def char_of_def bit_0)

lemma open_loop_opens:
  "port_open P p w = (None, w1) \<Longrightarrow> open_loop P p w = Some (w1, [Open p None])"
  by (subst open_loop.simps) simp

lemma open_loop_retry:
  "port_open P p w = (Some err, w1) \<Longrightarrow>
   open_loop P p w =
     Option.bind (open_loop P p w1) (\<lambda>(w2, evs). Some (w2, retry_events p err @ evs))"
  by (subst open_loop.simps) simp

lemma skip_cond_numeral [simp]:
  "skip_cond t (numeral k) c \<longleftrightarrow> c \<ge> baudrates ! unat (numeral k :: u8) \<and> t > baudrates ! unat (numeral k :: u8)"
  "skip_cond t 0 c \<longleftrightarrow> c \<ge> baudrates ! 0 \<and> t > baudrates ! 0"
  "skip_cond t 1 c \<longleftrightarrow> c \<ge> baudrates ! 1 \<and> t > baudrates ! 1"
  by (simp_all add: skip_cond_def)

lemma flaky_setup:
  "connect_setup flaky_platform to_115200 tio0 si0 unplugged =
     Some (None, unplugged\<lparr>sim_is_open := True\<rparr>,
       [IsOpen False, Open ''/dev/ttyACM0'' None,
        SetOption (baud_rate 115200) None, SetOption (parity parity_none) None,
        SetOption (character_size 8) None, SetOption (stop_bits stop_bits_one) None,
        SetOption (flow_control flow_control_none) None,
        TcGetAttr 0, TcSetAttr \<lparr>c_iflag = 0, c_oflag = 0, c_cflag = 0, c_lflag = 0\<rparr> 0,
        IoctlTIOCGSERIAL 0, IoctlTIOCSSERIAL \<lparr>flags = 0x2000\<rparr> 0])"
  by (simp add: connect_setup_def close_if_open_def terminal_setup_def flaky_platform_def
        sim_platform_def unplugged_def to_115200_def open_loop_opens flowcontrol_flags_def)

lemma flaky_run:
  "setBaurate flaky_platform to_115200 (unplugged\<lparr>sim_is_open := True\<rparr>) =
     (Returned False, unplugged\<lparr>sim_is_open := True\<rparr>,
      (entry_logs @ [GetOption (Inr 9600), current_log 9600] @ step_events 4 9600) @
      SetOption (baud_rate 38400) (Some EIO) # set_option_failed EIO)"
  by (simp add: setBaurate_def flaky_platform_def sim_platform_def unplugged_def to_115200_def
        baud_loop_skip baud_loop_step baud_loop_set_fail baudrates_def)

lemma plugged_eq: "unplugged\<lparr>sim_is_open := True\<rparr> = plugged"
  by (simp add: plugged_def unplugged_def)

lemma stuck_run:
  "\<exists>evs. baud_loop stuck_platform 115200 0 9600 plugged = (Exhausted, 21, 9600, plugged, evs)"
  by (simp add: stuck_platform_def sim_platform_def plugged_def
        baud_loop_skip baud_loop_step baud_loop_exhausted baudrates_def)

lemma stuck_setup:
  "\<exists>ev0. connect_setup stuck_platform to_115200 tio0 si0 unplugged = Some (None, plugged, ev0)"
  by (simp add: connect_setup_def close_if_open_def terminal_setup_def stuck_platform_def
        sim_platform_def unplugged_def plugged_def to_115200_def open_loop_opens
        flowcontrol_flags_def)

section \<open>A failed call during the negotiation\<close>

lemma connect_after_setup:
  "connect_setup P sio tio0 serialInfo0 w0 = Some (None, w, ev0) \<Longrightarrow>
   setBaurate P sio w = (out, w', evs) \<Longrightarrow>
   SerialIo_connect P sio tio0 serialInfo0 w0 = Some (out, w', ev0 @ evs)"
  by (simp add: SerialIo_connect_def)

lemma failed_call_shape:
  assumes run: "setBaurate P sio w = (out, w', evs)"
    and cut: "evs = pre @ ev # post"
    and failed: "op_failed ev"
  shows "out = Returned False \<and>
         (\<exists>e. (ev = GetOption (Inl e) \<and> post = get_option_failed e) \<or>
              (\<exists>r. ev = SetOption (baud_rate r) (Some e) \<and> post = set_option_failed e)) \<and>
         \<not> list_ex is_call post \<and> \<not> list_ex op_failed post \<and> \<not> list_ex op_failed pre"
proof -
  from cut failed have "list_ex op_failed evs" by auto
  with setBaurate_outcome [OF run] obtain pre' e where
    out: "out = Returned False" and pre': "\<not> list_ex op_failed pre'" and
    evs: "evs = pre' @ GetOption (Inl e) # get_option_failed e \<or>
          (\<exists>r. evs = pre' @ SetOption (baud_rate r) (Some e) # set_option_failed e)"
    by blast
  from evs have shape: "pre = pre' \<and>
    ((ev = GetOption (Inl e) \<and> post = get_option_failed e) \<or>
     (\<exists>r. ev = SetOption (baud_rate r) (Some e) \<and> post = set_option_failed e))"
  proof
    assume "evs = pre' @ GetOption (Inl e) # get_option_failed e"
    with cut have "pre @ ev # post = pre' @ GetOption (Inl e) # get_option_failed e" by simp
    from first_failure_unique [OF this, of op_failed] failed pre' show ?thesis by simp
  next
    assume "\<exists>r. evs = pre' @ SetOption (baud_rate r) (Some e) # set_option_failed e"
    then obtain r where "evs = pre' @ SetOption (baud_rate r) (Some e) # set_option_failed e" ..
    with cut have "pre @ ev # post = pre' @ SetOption (baud_rate r) (Some e) # set_option_failed e"
      by simp
    from first_failure_unique [OF this, of op_failed] failed pre' show ?thesis by simp
  qed
  then have "\<not> list_ex is_call post" "\<not> list_ex op_failed post" by auto
  with out shape pre' show ?thesis by blast
qed

text \<open>
  C4: when \<open>connect\<close> has reached the negotiation and a \<open>get_option\<close> or
  \<open>set_option\<close> call of \<open>setBaurate\<close> throws \<open>e\<close> (the first \<open>get_option\<close> included),
  \<open>setBaurate\<close> returns \<open>false\<close> and so does \<open>connect\<close>. What follows the failed call
  is the message \<open>get_option failed due to\<close> or \<open>set_option failed due to\<close> with
  \<open>e.what()\<close> at \<open>ERROR\<close>, then \<open>Additional info about error is\<close> with the
  diagnostic text of \<open>e\<close> at \<open>INFO\<close>, and nothing else: no further call on the port, so
  no retry. No call before it had failed.
\<close>

theorem failed_call_aborts_negotiation:
  assumes reached: "connect_setup P sio tio0 serialInfo0 w0 = Some (None, w, ev0)"
    and run: "setBaurate P sio w = (out, w', evs)"
    and cut: "evs = pre @ ev # post"
    and failed: "op_failed ev"
  shows "out = Returned False \<and>
         SerialIo_connect P sio tio0 serialInfo0 w0 = Some (Returned False, w', ev0 @ evs) \<and>
         (\<exists>e. (ev = GetOption (Inl e) \<and>
               post = [Log ERROR (''get_option failed due to '' @ what e),
                       Log INFO (''Additional info about error is '' @
                                 diagnostic_information e)]) \<or>
              (\<exists>r. ev = SetOption (baud_rate r) (Some e) \<and>
                 post = [Log ERROR (''set_option failed due to '' @ what e),
                         Log INFO (''Additional info about error is '' @
                                   diagnostic_information e)])) \<and>
         \<not> list_ex is_call post \<and> \<not> list_ex op_failed post \<and> \<not> list_ex op_failed pre"
proof -
  note shape = failed_call_shape [OF run cut failed,
      unfolded get_option_failed_def set_option_failed_def]
  from shape have out: "out = Returned False" by (rule conjunct1)
  from connect_after_setup [OF reached run] out
  have ret: "SerialIo_connect P sio tio0 serialInfo0 w0 = Some (Returned False, w', ev0 @ evs)"
    by simp
  from shape have rest:
    "(\<exists>e. (ev = GetOption (Inl e) \<and>
               post = [Log ERROR (''get_option failed due to '' @ what e),
                       Log INFO (''Additional info about error is '' @
                                 diagnostic_information e)]) \<or>
              (\<exists>r. ev = SetOption (baud_rate r) (Some e) \<and>
                 post = [Log ERROR (''set_option failed due to '' @ what e),
                         Log INFO (''Additional info about error is '' @
                                   diagnostic_information e)])) \<and>
         \<not> list_ex is_call post \<and> \<not> list_ex op_failed post \<and> \<not> list_ex op_failed pre"
    by (rule conjunct2)
  show ?thesis by (rule conjI [OF out conjI [OF ret rest]])
qed

theorem failed_call_aborts_negotiation_witness:
  "op_failed (SetOption (baud_rate 38400) (Some EIO)) \<and>
   connect_setup flaky_platform to_115200 zero_termios zero_serial_struct unplugged =
     Some (None, plugged,
       [IsOpen False, Open ''/dev/ttyACM0'' None,
        SetOption (baud_rate 115200) None, SetOption (parity parity_none) None,
        SetOption (character_size 8) None, SetOption (stop_bits stop_bits_one) None,
        SetOption (flow_control flow_control_none) None,
        TcGetAttr 0, TcSetAttr zero_termios 0,
        IoctlTIOCGSERIAL 0, IoctlTIOCSSERIAL \<lparr>flags = 0x2000\<rparr> 0]) \<and>
   SerialIo_connect flaky_platform to_115200 zero_termios zero_serial_struct unplugged =
     Some (Returned False, plugged,
       [IsOpen False, Open ''/dev/ttyACM0'' None,
        SetOption (baud_rate 115200) None, SetOption (parity parity_none) None,
        SetOption (character_size 8) None, SetOption (stop_bits stop_bits_one) None,
        SetOption (flow_control flow_control_none) None,
        TcGetAttr 0, TcSetAttr zero_termios 0,
        IoctlTIOCGSERIAL 0, IoctlTIOCSSERIAL \<lparr>flags = 0x2000\<rparr> 0,
        Log DEBUG ''Gradually increasing the baudrate to the desired value...'',
        Log DEBUG ''Initiated current_baudrate object...'',
        GetOption (Inr 9600),
        Log DEBUG ''Current baudrate is 9600'',
        SetOption (baud_rate 19200) None, SleepFor 500, GetOption (Inr 9600),
        Log DEBUG ''Set ASIO baudrate to 9600'',
        SetOption (baud_rate 38400) (Some EIO),
        Log ERROR ''set_option failed due to set_option: Input/output error'',
        Log INFO ''Additional info about error is boost::system::system_error''])"
proof -
  have f: "op_failed (SetOption (baud_rate 38400) (Some EIO))" by simp
  note s = flaky_setup [of zero_termios zero_serial_struct, unfolded plugged_eq]
  note r = flaky_run [unfolded plugged_eq]
  from failed_call_aborts_negotiation [OF s r refl f]
  have "SerialIo_connect flaky_platform to_115200 zero_termios zero_serial_struct unplugged =
     Some (Returned False, plugged,
       [IsOpen False, Open ''/dev/ttyACM0'' None,
        SetOption (baud_rate 115200) None, SetOption (parity parity_none) None,
        SetOption (character_size 8) None, SetOption (stop_bits stop_bits_one) None,
        SetOption (flow_control flow_control_none) None,
        TcGetAttr 0, TcSetAttr \<lparr>c_iflag = 0, c_oflag = 0, c_cflag = 0, c_lflag = 0\<rparr> 0,
        IoctlTIOCGSERIAL 0, IoctlTIOCSSERIAL \<lparr>flags = 0x2000\<rparr> 0] @
       (entry_logs @ [GetOption (Inr 9600), current_log 9600] @ step_events 4 9600) @
       SetOption (baud_rate 38400) (Some EIO) # set_option_failed EIO)"
    by blast
  with s f show ?thesis
    by (simp add: entry_logs_def current_log_def step_events_def set_option_failed_def EIO_def
          zero_termios_def baudrates_def to_string.simps digit_chars)
qed

section \<open>The table exhausted without reaching the target\<close>

text \<open>
  C3, as the code has it: when the loop has gone through the whole table and the rate read
  back is still not the target, no \<open>return\<close> statement of \<open>setBaurate\<close> is executed,
  neither a \<open>return false\<close> nor any other. The loop is left, the message
  \<open>Set ASIO baudrate to\<close>, the rate last read, \<open>, leaving InitializeSerial() method\<close> is
  logged at \<open>INFO\<close> as the last event, and control reaches the end of the function body;
  no call has failed on the way. \<open>connect\<close> ends with that call. A run that left the
  loop by its \<open>break\<close>, the target reached, ends in the same way.
\<close>

theorem exhausted_table_is_not_a_failure:
  assumes reached: "connect_setup P sio tio0 serialInfo0 w0 = Some (None, w, ev0)"
    and first_read: "get_option P w = (Inr v, w1)"
    and loop: "baud_loop P (baudrate sio) 0 v w1 = (x, j, c, w2, evs)"
    and left: "x = Exhausted \<and> c \<noteq> baudrate sio \<or> x = Break"
  shows "setBaurate P sio w =
           (FlowedOffEnd, w2,
            entry_logs @ [GetOption (Inr v), current_log v] @ evs @
            [Log INFO (''Set ASIO baudrate to '' @ to_string (unat c) @
                       '', leaving InitializeSerial() method'')]) \<and>
         SerialIo_connect P sio tio0 serialInfo0 w0 =
           Some (FlowedOffEnd, w2,
             ev0 @ entry_logs @ [GetOption (Inr v), current_log v] @ evs @
             [Log INFO (''Set ASIO baudrate to '' @ to_string (unat c) @
                        '', leaving InitializeSerial() method'')]) \<and>
         (\<forall>b. fst (setBaurate P sio w) \<noteq> Returned b) \<and>
         c = last (v # readbacks evs) \<and>
         \<not> list_ex op_failed evs"
proof -
  from left have x: "x \<noteq> ReturnFalse" by auto
  have r: "setBaurate P sio w =
           (FlowedOffEnd, w2,
            entry_logs @ [GetOption (Inr v), current_log v] @ evs @ [leaving_log c])"
    using first_read loop x by (simp add: setBaurate_loop)
  have f: "\<not> list_ex op_failed evs"
    using baud_loop_outcome [OF loop] x by simp
  have l: "c = last (v # readbacks evs)"
    by (rule baud_loop_current [OF loop])
  from connect_after_setup [OF reached r] r f l show ?thesis
    by (simp add: leaving_log_def)
qed

theorem exhausted_table_is_not_a_failure_witness:
  "\<exists>ev0 evs.
     connect_setup stuck_platform to_115200 zero_termios zero_serial_struct unplugged =
       Some (None, plugged, ev0) \<and>
     get_option stuck_platform plugged = (Inr 9600, plugged) \<and>
     baud_loop stuck_platform (baudrate to_115200) 0 9600 plugged =
       (Exhausted, 21, 9600, plugged, evs) \<and>
     9600 \<noteq> baudrate to_115200 \<and>
     SerialIo_connect stuck_platform to_115200 zero_termios zero_serial_struct unplugged =
       Some (FlowedOffEnd, plugged,
         ev0 @ entry_logs @ [GetOption (Inr 9600), current_log 9600] @ evs @
         [Log INFO ''Set ASIO baudrate to 9600, leaving InitializeSerial() method''])"
proof -
  obtain ev0 where
    s: "connect_setup stuck_platform to_115200 zero_termios zero_serial_struct unplugged =
          Some (None, plugged, ev0)"
    using stuck_setup by blast
  obtain evs where
    l: "baud_loop stuck_platform (baudrate to_115200) 0 9600 plugged =
          (Exhausted, 21, 9600, plugged, evs)"
    using stuck_run by (auto simp: to_115200_def)
  have g: "get_option stuck_platform plugged = (Inr 9600, plugged)"
    by (simp add: stuck_platform_def sim_platform_def plugged_def)
  have m: "9600 \<noteq> baudrate to_115200" by (simp add: to_115200_def)
  then have d: "Exhausted = Exhausted \<and> 9600 \<noteq> baudrate to_115200 \<or> Exhausted = Break"
    by simp
  have t: "''Set ASIO baudrate to '' @ to_string (unat (9600 :: u32)) @
             '', leaving InitializeSerial() method'' =
           ''Set ASIO baudrate to 9600, leaving InitializeSerial() method''"
    by (simp add: to_string.simps digit_chars)
  from exhausted_table_is_not_a_failure [OF s g l d]
  have "SerialIo_connect stuck_platform to_115200 zero_termios zero_serial_struct unplugged =
       Some (FlowedOffEnd, plugged,
         ev0 @ entry_logs @ [GetOption (Inr 9600), current_log 9600] @ evs @
         [Log INFO ''Set ASIO baudrate to 9600, leaving InitializeSerial() method''])"
    unfolding t by blast
  with s g l m show ?thesis by blast
qed

text \<open>
  C3 as stated fails: on a port that accepts every \<open>set_option\<close> and keeps reading 9600
  back, a negotiation towards 115200 exhausts the table with the rate still 9600, and neither
  \<open>setBaurate\<close> nor \<open>connect\<close> returns \<open>false\<close>.
\<close>

theorem exhausted_table_counterexample:
  "(case baud_loop stuck_platform 115200 0 9600 plugged of
      (x, j, c, w, evs) \<Rightarrow> x = Exhausted \<and> c \<noteq> 115200) \<and>
   fst (setBaurate stuck_platform to_115200 plugged) \<noteq> Returned False \<and>
   (\<exists>w evs. SerialIo_connect stuck_platform to_115200
        zero_termios zero_serial_struct unplugged =
      Some (FlowedOffEnd, w, evs))"
proof -
  obtain evs where l: "baud_loop stuck_platform 115200 0 9600 plugged = (Exhausted, 21, 9600, plugged, evs)"
    using stuck_run by blast
  have g: "get_option stuck_platform plugged = (Inr 9600, plugged)"
    by (simp add: stuck_platform_def sim_platform_def plugged_def)
  have b: "baudrate to_115200 = 115200" by (simp add: to_115200_def)
  have r: "setBaurate stuck_platform to_115200 plugged =
     (FlowedOffEnd, plugged, entry_logs @ [GetOption (Inr 9600), current_log 9600] @ evs @ [leaving_log 9600])"
    using setBaurate_loop [OF g, of to_115200] l b by simp
  obtain ev0 where s: "connect_setup stuck_platform to_115200
        zero_termios zero_serial_struct unplugged = Some (None, plugged, ev0)"
    using stuck_setup by blast
  from connect_after_setup [OF s r] l r show ?thesis by simp
qed

section \<open>A port that reads back what was set\<close>

lemma faithful_loop:
  assumes get: "\<And>w. get_option P w = (Inr (rate w), w)"
    and set: "\<And>r w. \<exists>w'. set_option P (baud_rate r) w = (None, w') \<and> rate w' = r"
    and k: "k < 21" "target = baudrates ! k"
  shows "baud_loop P target i c w = (x, j, c', w', evs) \<Longrightarrow> c = target \<or> unat i \<le> k \<Longrightarrow>
         c = rate w \<Longrightarrow> x \<noteq> ReturnFalse \<and> c' = target \<and> rate w' = target"
proof (induction i c w arbitrary: x j c' w' evs
       rule: baud_loop_induct [where P = P and target = target])
  case (exhausted i c w)
  with k show ?case by (auto simp: baud_loop_exhausted)
next
  case (break i c w)
  then show ?case by (auto simp: baud_loop_break)
next
  case (skip i c w)
  from skip.hyps k have "unat i \<noteq> k" by (auto simp: skip_cond_def)
  with skip.hyps skip.prems(2) have "unat (i + 1) \<le> k" by (simp add: unat_u8_succ)
  moreover from skip.prems(1) skip.hyps have "baud_loop P target (i + 1) c w = (x, j, c', w', evs)"
    by (simp add: baud_loop_skip)
  ultimately show ?case using skip.IH skip.prems(3) by blast
next
  case (set_fail i c w e w1)
  with set [of "baudrates ! unat i" w] show ?case by simp
next
  case (get_fail i c w w1 e w2)
  with get [of w1] show ?case by simp
next
  case (step i c w w1 v w2)
  from step.hyps set [of "baudrates ! unat i" w] have w1: "rate w1 = baudrates ! unat i" by simp
  from step.hyps get [of w1] w1 have v: "v = baudrates ! unat i" "w2 = w1" by simp_all
  obtain x2 j2 c2 w3 evs2 where r: "baud_loop P target (i + 1) v w2 = (x2, j2, c2, w3, evs2)"
    by (metis prod_cases5)
  with step.prems(1) step.hyps have e: "x = x2" "c' = c2" "w' = w3"
    by (simp_all add: baud_loop_step)
  from step.hyps step.prems(2) have "unat i \<le> k" by simp
  then have "v = target \<or> unat (i + 1) \<le> k"
    using v k step.hyps by (cases "unat i = k") (auto simp: unat_u8_succ)
  from step.IH [OF r this] v w1 e show ?case by simp
qed

text \<open>
  C1: let the target be an entry of the table, and let the port read back the rate of the
  line and set it to every rate it is asked for (\<open>rate\<close> is that rate in a state of the
  world). Then from every state, whatever the rate at the start, lower or higher than the
  target or neither, the loop ends without a failure with \<open>current_baudrate\<close> equal to
  the target; \<open>setBaurate\<close> runs to its end, the line is at the target, the last rate read
  back and the rate in the final message are the target, and the rates set on the way are
  taken from the table in ascending order.
\<close>

theorem faithful_negotiation_reaches_target:
  assumes target: "target \<in> set baudrates" "baudrate sio = target"
    and get: "\<And>w. get_option P w = (Inr (rate w), w)"
    and set: "\<And>r w. \<exists>w'. set_option P (baud_rate r) w = (None, w') \<and> rate w' = r"
  shows "\<exists>x j w1 evs1 w' evs.
           baud_loop P target 0 (rate w) w = (x, j, target, w1, evs1) \<and> x \<noteq> ReturnFalse \<and>
           setBaurate P sio w = (FlowedOffEnd, w', evs) \<and>
           rate w' = target \<and> last (readbacks evs) = target \<and> last evs = leaving_log target \<and>
           subseq (set_attempts evs) baudrates \<and> sorted_wrt (<) (set_attempts evs)"
proof -
  from target(1) obtain k where k: "k < 21" "target = baudrates ! k"
    by (auto simp: in_set_conv_nth baudrates_length)
  obtain x j c w1 evs1 where l: "baud_loop P target 0 (rate w) w = (x, j, c, w1, evs1)"
    by (metis prod_cases5)
  from faithful_loop [OF get set k l] have f: "x \<noteq> ReturnFalse" "c = target" "rate w1 = target"
    by simp_all
  let ?evs = "entry_logs @ [GetOption (Inr (rate w)), current_log (rate w)] @ evs1 @ [leaving_log target]"
  have r: "setBaurate P sio w = (FlowedOffEnd, w1, ?evs)"
    using setBaurate_loop [OF get [of w], of sio] l f target(2) by simp
  have s: "subseq (set_attempts ?evs) baudrates"
    using setBaurate_sets [of P sio w] r by simp
  have "last (readbacks ?evs) = last (rate w # readbacks evs1)"
    by (simp add: readbacks_append)
  also have "\<dots> = target" using baud_loop_current [OF l] f by simp
  finally have "last (readbacks ?evs) = target" .
  with l f r s subseq_sorted_wrt [OF s baudrates_strict] show ?thesis by auto
qed

theorem faithful_negotiation_reaches_target_witness:
  "115200 \<in> set baudrates \<and> baudrate to_115200 = 115200 \<and>
   (\<forall>w. get_option sim_platform w = (Inr (sim_rate w), w)) \<and>
   (\<forall>r w. \<exists>w'. set_option sim_platform (baud_rate r) w = (None, w') \<and> sim_rate w' = r) \<and>
   sim_rate at_230400 > 115200 \<and>
   (\<exists>w' evs. setBaurate sim_platform to_115200 at_230400 = (FlowedOffEnd, w', evs) \<and>
      sim_rate w' = 115200 \<and> last evs = leaving_log 115200 \<and>
      sorted_wrt (<) (set_attempts evs))"
proof -
  have t: "115200 \<in> set baudrates" "baudrate to_115200 = 115200"
    by (simp_all add: baudrates_def to_115200_def)
  have g: "\<And>w. get_option sim_platform w = (Inr (sim_rate w), w)"
    by (simp add: sim_platform_def)
  have s: "\<And>r w. \<exists>w'. set_option sim_platform (baud_rate r) w = (None, w') \<and> sim_rate w' = r"
    by (simp add: sim_platform_def)
  have "sim_rate at_230400 > 115200" by (simp add: at_230400_def)
  with faithful_negotiation_reaches_target [OF t g s, of at_230400] t g s show ?thesis
    by blast
qed

section \<open>From 9600 to 115200\<close>

text \<open>
  C2: on the simulated port at 9600 with the target 115200 the rates read are 9600, 19200,
  38400, 57600 and 115200, and the rates set are the entries of the table after 9600 up to
  the target, in this order: 19200, 38400, 57600, 115200. The entry 9600 itself is passed
  over by the \<open>continue\<close> (the rate read is already 9600), so the sequence of the
  implementation starts at the rate read, not at a \<open>set_option\<close> of it.
\<close>

theorem negotiation_from_9600_to_115200:
  "setBaurate sim_platform to_115200 plugged =
     (FlowedOffEnd, plugged\<lparr>sim_rate := 115200\<rparr>,
      entry_logs @ [GetOption (Inr 9600), current_log 9600] @
      (step_events 4 19200 @ step_events 5 38400 @ step_events 6 57600 @ step_events 7 115200) @
      [leaving_log 115200]) \<and>
   set_attempts (snd (snd (setBaurate sim_platform to_115200 plugged))) =
     [19200, 38400, 57600, 115200] \<and>
   readbacks (snd (snd (setBaurate sim_platform to_115200 plugged))) =
     [9600, 19200, 38400, 57600, 115200] \<and>
   subseq [19200, 38400, 57600, 115200] baudrates"
proof -
  have r: "setBaurate sim_platform to_115200 plugged =
     (FlowedOffEnd, plugged\<lparr>sim_rate := 115200\<rparr>,
      entry_logs @ [GetOption (Inr 9600), current_log 9600] @
      (step_events 4 19200 @ step_events 5 38400 @ step_events 6 57600 @ step_events 7 115200) @
      [leaving_log 115200])"
    by (simp add: setBaurate_def sim_platform_def plugged_def to_115200_def
          baud_loop_skip baud_loop_step baud_loop_break baudrates_def)
  have "subseq [19200, 38400, 57600, 115200] baudrates"
    by (simp add: baudrates_def)
  with r show ?thesis
    by (simp add: set_attempts_append readbacks_append baudrates_def)
qed

section \<open>The open loop\<close>

lemma open_failures_length: "open_failures P p n w = Some (errs, w1) \<Longrightarrow> length errs = n"
  by (induction n arbitrary: w errs) (auto split: prod.splits option.splits)

lemma open_loop_after_failures:
  "open_failures P p n w = Some (errs, w1) \<Longrightarrow> port_open P p w1 = (None, w2) \<Longrightarrow>
   open_loop P p w = Some (w2, concat (map (retry_events p) errs) @ [Open p None])"
proof (induction n arbitrary: w errs)
  case 0
  then show ?case by (simp add: open_loop_opens)
next
  case (Suc n)
  then show ?case
    by (auto simp: open_loop_retry split: prod.splits option.splits)
qed

lemma open_failures_stop:
  "open_failures P p n w = Some (errs, w1) \<Longrightarrow> port_open P p w1 = (None, w2) \<Longrightarrow>
   open_failures P p (Suc n) w = None"
proof (induction n arbitrary: w errs)
  case 0
  then show ?case by simp
next
  case (Suc n)
  from Suc.prems(1) obtain err w' errs' where
    a: "port_open P p w = (Some err, w')" and b: "open_failures P p n w' = Some (errs', w1)"
    by (auto split: prod.splits option.splits)
  from Suc.IH [OF b Suc.prems(2)] have "open_failures P p (Suc n) w' = None" .
  with a show ?case by (subst open_failures.simps(2)) simp
qed

lemma open_loop_returns:
  fixes P :: "'w platform"
  assumes "open_loop P p w = Some y"
  shows "\<exists>n errs w1. open_failures P p n w = Some (errs, w1) \<and> port_open P p w1 = (None, fst y) \<and>
     snd y = concat (map (retry_events p) errs) @ [Open p None]"
proof -
  let ?R = "\<lambda>(x :: ('w platform \<times> string) \<times> 'w) (y :: 'w \<times> event list).
     \<exists>n errs w1. open_failures (fst (fst x)) (snd (fst x)) n (snd x) = Some (errs, w1) \<and>
       port_open (fst (fst x)) (snd (fst x)) w1 = (None, fst y) \<and>
       snd y = concat (map (retry_events (snd (fst x))) errs) @ [Open (snd (fst x)) None]"
  have "?R ((P, p), w) y"
  proof (rule open_loop.raw_induct [where Pa = ?R, OF _ assms])
    fix f :: "'w platform \<Rightarrow> string \<Rightarrow> 'w \<Rightarrow> ('w \<times> event list) option"
    fix P p w y
    assume IH: "\<And>P p w y. f P p w = Some y \<Longrightarrow> ?R ((P, p), w) y"
      and eq: "(case port_open P p w of
                  (None, w1) \<Rightarrow> Some (w1, [Open p None])
                | (Some err, w1) \<Rightarrow>
                    Option.bind (f P p w1) (\<lambda>(w2, evs). Some (w2, retry_events p err @ evs))) =
               Some y"
    obtain r w1 where po: "port_open P p w = (r, w1)" by (cases "port_open P p w")
    show "?R ((P, p), w) y"
    proof (cases r)
      case None
      with po eq have "y = (w1, [Open p None])" by simp
      with po None have "open_failures P p 0 w = Some ([], w)" "port_open P p w = (None, fst y)"
        "snd y = concat (map (retry_events p) []) @ [Open p None]" by simp_all
      then have "\<exists>n errs w1. open_failures P p n w = Some (errs, w1) \<and>
          port_open P p w1 = (None, fst y) \<and>
          snd y = concat (map (retry_events p) errs) @ [Open p None]"
        by blast
      then show ?thesis by (simp only: fst_conv snd_conv)
    next
      case (Some err)
      with po eq obtain w2 evs where
        rec: "f P p w1 = Some (w2, evs)" and y: "y = (w2, retry_events p err @ evs)"
        by (auto simp: bind_eq_Some_conv)
      from IH [OF rec] obtain n errs w3 where
        "open_failures P p n w1 = Some (errs, w3)" "port_open P p w3 = (None, w2)"
        "evs = concat (map (retry_events p) errs) @ [Open p None]"
        by auto
      with po Some y have "open_failures P p (Suc n) w = Some (err # errs, w3)"
        "port_open P p w3 = (None, fst y)"
        "snd y = concat (map (retry_events p) (err # errs)) @ [Open p None]"
        by simp_all
      then have "\<exists>n errs w1. open_failures P p n w = Some (errs, w1) \<and>
          port_open P p w1 = (None, fst y) \<and>
          snd y = concat (map (retry_events p) errs) @ [Open p None]"
        by blast
      then show ?thesis by (simp only: fst_conv snd_conv)
    qed
  qed
  then show ?thesis by (simp only: fst_conv snd_conv)
qed

lemma open_loop_never:
  assumes "\<And>n. open_failures P p n w \<noteq> None"
  shows "open_loop P p w = None"
proof (rule ccontr)
  assume "open_loop P p w \<noteq> None"
  then obtain y where "open_loop P p w = Some y" by auto
  from open_loop_returns [OF this] obtain n errs w1 where
    "open_failures P p n w = Some (errs, w1)" "port_open P p w1 = (None, fst y)"
    by blast
  from open_failures_stop [OF this] assms [of "Suc n"] show False by simp
qed

lemma connect_setup_opened:
  assumes "close_if_open P w0 = (None, w, ev1)"
    and "open_loop P (port sio) w = Some (w2, ev2)"
  shows "\<exists>r w' rest. connect_setup P sio tio0 serialInfo0 w0 = Some (r, w', ev1 @ ev2 @ rest)"
proof -
  obtain r w3 ev3 where so: "set_options P
       [baud_rate (baudrate sio), parity parity_none, character_size 8,
        stop_bits stop_bits_one, flow_control flow_control_none] w2 = (r, w3, ev3)"
    by (metis prod_cases3)
  obtain w4 ev4 where ts: "terminal_setup P (flowcontrol sio) tio0 serialInfo0 w3 = (w4, ev4)"
    by (cases "terminal_setup P (flowcontrol sio) tio0 serialInfo0 w3")
  show ?thesis
  proof (cases r)
    case None
    with assms so ts have "connect_setup P sio tio0 serialInfo0 w0 =
        Some (None, w4, ev1 @ ev2 @ (ev3 @ ev4))"
      by (simp add: connect_setup_def)
    then show ?thesis by blast
  next
    case (Some e)
    with assms so have "connect_setup P sio tio0 serialInfo0 w0 = Some (Some e, w3, ev1 @ ev2 @ ev3)"
      by (simp add: connect_setup_def)
    then show ?thesis by blast
  qed
qed

lemma connect_setup_never_opened:
  "close_if_open P w0 = (None, w, ev1) \<Longrightarrow> open_loop P (port sio) w = None \<Longrightarrow>
   connect_setup P sio tio0 serialInfo0 w0 = None \<and>
   SerialIo_connect P sio tio0 serialInfo0 w0 = None"
  by (simp add: connect_setup_def SerialIo_connect_def)

lemma reconnecting_failures:
  "open_failures sim_platform ''/dev/ttyACM0'' 2 (reconnecting\<lparr>sim_is_open := False\<rparr>) =
     Some ([ENOENT, ENOENT], unplugged)"
  by (simp add: numeral_2_eq_2 sim_platform_def reconnecting_def unplugged_def)

lemma absent_failures:
  "open_failures absent_platform p n w = Some (replicate n ENOENT, w)"
  by (induction n) (simp_all add: absent_platform_def)

section \<open>Waiting for the device\<close>

text \<open>
  C5: \<open>connect\<close> starts by closing the port when it is open, and only then enters the
  loop. When the first \<open>n\<close> attempts to open the device path throw and the next one
  succeeds, the loop makes exactly these \<open>n + 1\<close> attempts: each failed one is followed
  by a message at \<open>ERROR\<close> that holds \<open>err.what()\<close> and by a sleep of 1000 ms, then by the
  next attempt. This holds for every \<open>n\<close>: the loop has no bound on the attempts.
\<close>

theorem open_retries_until_device_appears:
  assumes closed: "close_if_open P w0 = (None, w, ev1)"
    and fails: "open_failures P (port sio) n w = Some (errs, w1)"
    and opens: "port_open P (port sio) w1 = (None, w2)"
  shows "ev1 = (if port_is_open P w0 then [IsOpen True, Close None] else [IsOpen False]) \<and>
         length errs = n \<and>
         open_loop P (port sio) w =
           Some (w2, concat (map (retry_events (port sio)) errs) @ [Open (port sio) None]) \<and>
         (\<exists>r w' rest. connect_setup P sio tio0 serialInfo0 w0 =
            Some (r, w', ev1 @ (concat (map (retry_events (port sio)) errs) @
                               [Open (port sio) None]) @ rest)) \<and>
         (\<forall>err \<in> set errs. retry_events (port sio) err =
            [Open (port sio) (Some err),
             Log ERROR (''SerialCoket: Could not open serial port '' @ port sio @ ''. Error: '' @
                        what err @ ''. Will retry every second.''),
             SleepFor 1000])"
proof -
  have l: "open_loop P (port sio) w =
           Some (w2, concat (map (retry_events (port sio)) errs) @ [Open (port sio) None])"
    by (rule open_loop_after_failures [OF fails opens])
  have "ev1 = (if port_is_open P w0 then [IsOpen True, Close None] else [IsOpen False])"
    using closed by (auto simp: close_if_open_def split: if_splits prod.splits)
  with l open_failures_length [OF fails] connect_setup_opened [OF closed l, of tio0 serialInfo0]
  show ?thesis by (simp add: retry_events_def could_not_open_def)
qed

theorem open_retries_until_device_appears_witness:
  "close_if_open sim_platform reconnecting =
     (None, reconnecting\<lparr>sim_is_open := False\<rparr>, [IsOpen True, Close None]) \<and>
   open_failures sim_platform (port to_115200) 2 (reconnecting\<lparr>sim_is_open := False\<rparr>) =
     Some ([ENOENT, ENOENT], unplugged) \<and>
   port_open sim_platform (port to_115200) unplugged = (None, plugged) \<and>
   open_loop sim_platform (port to_115200) (reconnecting\<lparr>sim_is_open := False\<rparr>) =
     Some (plugged,
       [Open ''/dev/ttyACM0'' (Some ENOENT),
        Log ERROR (could_not_open ''/dev/ttyACM0'' ENOENT), SleepFor 1000,
        Open ''/dev/ttyACM0'' (Some ENOENT),
        Log ERROR (could_not_open ''/dev/ttyACM0'' ENOENT), SleepFor 1000,
        Open ''/dev/ttyACM0'' None])"
proof -
  have c: "close_if_open sim_platform reconnecting =
     (None, reconnecting\<lparr>sim_is_open := False\<rparr>, [IsOpen True, Close None])"
    by (simp add: close_if_open_def sim_platform_def reconnecting_def)
  have p: "port to_115200 = ''/dev/ttyACM0''" by (simp add: to_115200_def)
  have f: "open_failures sim_platform (port to_115200) 2 (reconnecting\<lparr>sim_is_open := False\<rparr>) =
     Some ([ENOENT, ENOENT], unplugged)"
    unfolding p by (rule reconnecting_failures)
  have o: "port_open sim_platform (port to_115200) unplugged = (None, plugged)"
    by (simp add: sim_platform_def unplugged_def plugged_def)
  from open_retries_until_device_appears [OF c f o] c f o show ?thesis
    by (simp add: p retry_events_def)
qed

section \<open>Leaving the open loop\<close>

text \<open>
  C6, as the code has it: the loop reads nothing but the result of \<open>open\<close>. When it is
  left, an attempt has just opened the device after the attempts before it failed; when no
  attempt ever opens the device, the loop is never left and \<open>connect\<close> does not return.
\<close>

theorem open_loop_exits_only_by_opening:
  "(open_loop P p w = Some (w', evs) \<longrightarrow>
      (\<exists>n errs w1. open_failures P p n w = Some (errs, w1) \<and> port_open P p w1 = (None, w') \<and>
         evs = concat (map (retry_events p) errs) @ [Open p None])) \<and>
   ((\<forall>n. open_failures P p n w \<noteq> None) \<longrightarrow> open_loop P p w = None) \<and>
   (close_if_open P w0 = (None, w, ev1) \<and> (\<forall>n. open_failures P (port sio) n w \<noteq> None) \<longrightarrow>
      SerialIo_connect P sio tio0 serialInfo0 w0 = None)"
proof (intro conjI impI)
  assume "open_loop P p w = Some (w', evs)"
  from open_loop_returns [OF this]
  show "\<exists>n errs w1. open_failures P p n w = Some (errs, w1) \<and> port_open P p w1 = (None, w') \<and>
         evs = concat (map (retry_events p) errs) @ [Open p None]"
    by simp
next
  assume "\<forall>n. open_failures P p n w \<noteq> None"
  then show "open_loop P p w = None" by (intro open_loop_never) simp
next
  assume a: "close_if_open P w0 = (None, w, ev1) \<and> (\<forall>n. open_failures P (port sio) n w \<noteq> None)"
  then have "open_loop P (port sio) w = None" by (intro open_loop_never) simp
  with a connect_setup_never_opened [of P w0 w ev1 sio tio0 serialInfo0]
  show "SerialIo_connect P sio tio0 serialInfo0 w0 = None" by simp
qed

theorem open_loop_exits_only_by_opening_witness:
  "open_loop sim_platform ''/dev/ttyACM0'' (reconnecting\<lparr>sim_is_open := False\<rparr>) \<noteq> None \<and>
   (\<exists>errs. open_failures sim_platform ''/dev/ttyACM0'' 2 (reconnecting\<lparr>sim_is_open := False\<rparr>) =
      Some (errs, unplugged)) \<and>
   close_if_open absent_platform unplugged = (None, unplugged, [IsOpen False]) \<and>
   (\<forall>n. open_failures absent_platform (port to_115200) n unplugged \<noteq> None) \<and>
   open_loop absent_platform (port to_115200) unplugged = None \<and>
   SerialIo_connect absent_platform to_115200 zero_termios zero_serial_struct unplugged = None"
proof -
  have o: "port_open sim_platform ''/dev/ttyACM0'' unplugged = (None, plugged)"
    by (simp add: sim_platform_def unplugged_def plugged_def)
  have l: "open_loop sim_platform ''/dev/ttyACM0'' (reconnecting\<lparr>sim_is_open := False\<rparr>) =
     Some (plugged, concat (map (retry_events ''/dev/ttyACM0'') [ENOENT, ENOENT]) @
                    [Open ''/dev/ttyACM0'' None])"
    by (rule open_loop_after_failures [OF reconnecting_failures o])
  have c: "close_if_open absent_platform unplugged = (None, unplugged, [IsOpen False])"
    by (simp add: close_if_open_def absent_platform_def sim_platform_def unplugged_def)
  have n: "\<forall>n. open_failures absent_platform (port to_115200) n unplugged \<noteq> None"
    by (simp add: absent_failures)
  from open_loop_exits_only_by_opening
         [of sim_platform "''/dev/ttyACM0''" "reconnecting\<lparr>sim_is_open := False\<rparr>" plugged
             "concat (map (retry_events ''/dev/ttyACM0'') [ENOENT, ENOENT]) @ [Open ''/dev/ttyACM0'' None]"]
    l reconnecting_failures
  have a: "open_loop sim_platform ''/dev/ttyACM0'' (reconnecting\<lparr>sim_is_open := False\<rparr>) \<noteq> None"
    "\<exists>errs. open_failures sim_platform ''/dev/ttyACM0'' 2 (reconnecting\<lparr>sim_is_open := False\<rparr>) =
      Some (errs, unplugged)"
    by simp_all
  from open_loop_exits_only_by_opening
         [of absent_platform "port to_115200" unplugged _ _ unplugged "[IsOpen False]" to_115200
             zero_termios zero_serial_struct] c n
  have "open_loop absent_platform (port to_115200) unplugged = None"
    "SerialIo_connect absent_platform to_115200 zero_termios zero_serial_struct unplugged = None"
    by simp_all
  with a c n show ?thesis by simp
qed

text \<open>
  C6 as stated fails: against a device path that never appears the loop fails attempt after
  attempt and never returns, and neither does \<open>connect\<close>; there is no condition in it
  by which a request to stop could end it.
\<close>

theorem absent_device_counterexample:
  "(\<forall>n. open_failures absent_platform (port to_115200) n unplugged =
          Some (replicate n ENOENT, unplugged)) \<and>
   open_loop absent_platform (port to_115200) unplugged = None \<and>
   SerialIo_connect absent_platform to_115200 zero_termios zero_serial_struct unplugged = None"
proof -
  have c: "close_if_open absent_platform unplugged = (None, unplugged, [IsOpen False])"
    by (simp add: close_if_open_def absent_platform_def sim_platform_def unplugged_def)
  have l: "open_loop absent_platform (port to_115200) unplugged = None"
    by (rule open_loop_never) (simp add: absent_failures)
  from connect_setup_never_opened [OF c l] l show ?thesis by (simp add: absent_failures)
qed

section \<open>A TCP connection that fails\<close>





section \<open>The results of the terminal calls\<close>

lemma setBaurate_never_throws:
  "fst (setBaurate P sio w) = Returned False \<or> fst (setBaurate P sio w) = FlowedOffEnd"
  using setBaurate_outcome [of P sio w] by (cases "setBaurate P sio w") auto

lemma notty_options:
  "set_options notty_platform
     [baud_rate (baudrate to_115200), parity parity_none, character_size 8,
      stop_bits stop_bits_one, flow_control flow_control_none] plugged =
   (None, at_115200,
    [SetOption (baud_rate 115200) None, SetOption (parity parity_none) None,
     SetOption (character_size 8) None, SetOption (stop_bits stop_bits_one) None,
     SetOption (flow_control flow_control_none) None])"
  by (simp add: notty_platform_def sim_platform_def plugged_def at_115200_def to_115200_def)

lemma notty_run:
  "setBaurate notty_platform to_115200 at_115200 =
     (FlowedOffEnd, at_115200,
      entry_logs @ [GetOption (Inr 115200), current_log 115200] @ [] @ [leaving_log 115200])"
  by (simp add: setBaurate_def notty_platform_def sim_platform_def at_115200_def to_115200_def
        baud_loop_break)

text \<open>
  C8, as the code has it: once the port is open and the five options are set, \<open>connect\<close>
  calls \<open>tcgetattr\<close>, \<open>tcsetattr\<close> and the two \<open>ioctl\<close> requests and reads none of
  their results: whatever the four calls return, \<open>connect\<close> goes on to the negotiation
  and ends as \<open>setBaurate\<close> does, which is by \<open>return false\<close> or at the end of its body,
  never with an error of the terminal calls.
\<close>

theorem terminal_results_are_not_read:
  assumes closed: "close_if_open P w0 = (None, w1, ev1)"
    and opened: "open_loop P (port sio) w1 = Some (w2, ev2)"
    and options: "set_options P
                    [baud_rate (baudrate sio), parity parity_none, character_size 8,
                     stop_bits stop_bits_one, flow_control flow_control_none] w2 =
                  (None, w3, ev3)"
    and attr_get: "tcgetattr P tio0 w3 = ((rc1, tio1), w4)"
    and attr_set: "tcsetattr P (cfmakeraw P (flowcontrol_flags P (flowcontrol sio) tio1)) w4 =
                   (rc2, w5)"
    and serial_get: "ioctl_TIOCGSERIAL P serialInfo0 w5 = ((rc3, serialInfo1), w6)"
    and serial_set: "ioctl_TIOCSSERIAL P
                       (serialInfo1\<lparr>flags := flags serialInfo1 OR ASYNC_LOW_LATENCY P\<rparr>) w6 =
                     (rc4, w7)"
    and run: "setBaurate P sio w7 = (out, w8, ev5)"
  shows "SerialIo_connect P sio tio0 serialInfo0 w0 =
           Some (out, w8,
             ev1 @ ev2 @ ev3 @
             [TcGetAttr rc1,
              TcSetAttr (cfmakeraw P (flowcontrol_flags P (flowcontrol sio) tio1)) rc2,
              IoctlTIOCGSERIAL rc3,
              IoctlTIOCSSERIAL
                (serialInfo1\<lparr>flags := flags serialInfo1 OR ASYNC_LOW_LATENCY P\<rparr>) rc4] @
             ev5) \<and>
         (out = Returned False \<or> out = FlowedOffEnd)"
proof -
  have "terminal_setup P (flowcontrol sio) tio0 serialInfo0 w3 =
          (w7, [TcGetAttr rc1,
              TcSetAttr (cfmakeraw P (flowcontrol_flags P (flowcontrol sio) tio1)) rc2,
              IoctlTIOCGSERIAL rc3,
              IoctlTIOCSSERIAL
                (serialInfo1\<lparr>flags := flags serialInfo1 OR ASYNC_LOW_LATENCY P\<rparr>) rc4])"
    using attr_get attr_set serial_get serial_set by (simp add: terminal_setup_def)
  with closed opened options have "connect_setup P sio tio0 serialInfo0 w0 =
     Some (None, w7, ev1 @ ev2 @ ev3 @ [TcGetAttr rc1,
              TcSetAttr (cfmakeraw P (flowcontrol_flags P (flowcontrol sio) tio1)) rc2,
              IoctlTIOCGSERIAL rc3,
              IoctlTIOCSSERIAL
                (serialInfo1\<lparr>flags := flags serialInfo1 OR ASYNC_LOW_LATENCY P\<rparr>) rc4])"
    by (simp add: connect_setup_def)
  from connect_after_setup [OF this run] setBaurate_never_throws [of P sio w7] run
  show ?thesis by simp
qed

theorem terminal_results_are_not_read_witness:
  "tcgetattr notty_platform zero_termios at_115200 = ((- 1, zero_termios), at_115200) \<and>
   tcsetattr notty_platform zero_termios at_115200 = (- 1, at_115200) \<and>
   ioctl_TIOCGSERIAL notty_platform zero_serial_struct at_115200 =
     ((- 1, zero_serial_struct), at_115200) \<and>
   ioctl_TIOCSSERIAL notty_platform \<lparr>flags = 0x2000\<rparr> at_115200 = (- 1, at_115200) \<and>
   SerialIo_connect notty_platform to_115200 zero_termios zero_serial_struct unplugged =
     Some (FlowedOffEnd, at_115200,
       [IsOpen False] @ [Open ''/dev/ttyACM0'' None] @
       [SetOption (baud_rate 115200) None, SetOption (parity parity_none) None,
        SetOption (character_size 8) None, SetOption (stop_bits stop_bits_one) None,
        SetOption (flow_control flow_control_none) None] @
       [TcGetAttr (- 1), TcSetAttr zero_termios (- 1), IoctlTIOCGSERIAL (- 1),
        IoctlTIOCSSERIAL \<lparr>flags = 0x2000\<rparr> (- 1)] @
       entry_logs @ [GetOption (Inr 115200), current_log 115200] @ [] @ [leaving_log 115200])"
proof -
  have c: "close_if_open notty_platform unplugged = (None, unplugged, [IsOpen False])"
    by (simp add: close_if_open_def notty_platform_def sim_platform_def unplugged_def)
  have o: "open_loop notty_platform (port to_115200) unplugged =
           Some (plugged, [Open ''/dev/ttyACM0'' None])"
    by (simp add: open_loop_opens notty_platform_def sim_platform_def unplugged_def plugged_def
          to_115200_def)
  have f: "cfmakeraw notty_platform
             (flowcontrol_flags notty_platform (flowcontrol to_115200) zero_termios) = zero_termios"
    by (simp add: flowcontrol_flags_def notty_platform_def sim_platform_def to_115200_def
          zero_termios_def)
  have l: "zero_serial_struct\<lparr>flags := flags zero_serial_struct OR ASYNC_LOW_LATENCY notty_platform\<rparr>
           = \<lparr>flags = 0x2000\<rparr>"
    by (simp add: zero_serial_struct_def notty_platform_def sim_platform_def)
  have g: "tcgetattr notty_platform zero_termios at_115200 = ((- 1, zero_termios), at_115200)"
    by (simp add: notty_platform_def sim_platform_def)
  have s: "tcsetattr notty_platform zero_termios at_115200 = (- 1, at_115200)"
    by (simp add: notty_platform_def sim_platform_def)
  have ig: "ioctl_TIOCGSERIAL notty_platform zero_serial_struct at_115200 =
            ((- 1, zero_serial_struct), at_115200)"
    by (simp add: notty_platform_def sim_platform_def)
  have isr: "ioctl_TIOCSSERIAL notty_platform \<lparr>flags = 0x2000\<rparr> at_115200 = (- 1, at_115200)"
    by (simp add: notty_platform_def sim_platform_def)
  have s': "tcsetattr notty_platform
              (cfmakeraw notty_platform
                 (flowcontrol_flags notty_platform (flowcontrol to_115200) zero_termios))
              at_115200 = (- 1, at_115200)"
    by (simp add: notty_platform_def sim_platform_def)
  have isr': "ioctl_TIOCSSERIAL notty_platform
                (zero_serial_struct\<lparr>flags :=
                   flags zero_serial_struct OR ASYNC_LOW_LATENCY notty_platform\<rparr>)
                at_115200 = (- 1, at_115200)"
    by (simp add: notty_platform_def sim_platform_def)
  from terminal_results_are_not_read [OF c o notty_options g s' ig isr' notty_run]
  show ?thesis using g s ig isr by (simp add: f l)
qed

text \<open>
  C8 as stated fails: on a terminal where \<open>tcgetattr\<close>, \<open>tcsetattr\<close> and both \<open>ioctl\<close>
  requests return \<open>-1\<close>, \<open>connect\<close> goes on to the negotiation, which finds the rate at
  the target and runs to its end; no failure is reported.
\<close>

theorem ignored_terminal_failure_counterexample:
  "fst (fst (tcgetattr notty_platform zero_termios at_115200)) = - 1 \<and>
   fst (tcsetattr notty_platform zero_termios at_115200) = - 1 \<and>
   fst (fst (ioctl_TIOCGSERIAL notty_platform zero_serial_struct at_115200)) = - 1 \<and>
   fst (ioctl_TIOCSSERIAL notty_platform \<lparr>flags = 0x2000\<rparr> at_115200) = - 1 \<and>
   (\<exists>ev0. connect_setup notty_platform to_115200 zero_termios zero_serial_struct unplugged =
      Some (None, at_115200,
        ev0 @ [TcGetAttr (- 1), TcSetAttr zero_termios (- 1), IoctlTIOCGSERIAL (- 1),
               IoctlTIOCSSERIAL \<lparr>flags = 0x2000\<rparr> (- 1)]) \<and>
      SerialIo_connect notty_platform to_115200 zero_termios zero_serial_struct unplugged =
        Some (FlowedOffEnd, at_115200,
          (ev0 @ [TcGetAttr (- 1), TcSetAttr zero_termios (- 1), IoctlTIOCGSERIAL (- 1),
                  IoctlTIOCSSERIAL \<lparr>flags = 0x2000\<rparr> (- 1)]) @
          entry_logs @ [GetOption (Inr 115200), current_log 115200] @ [] @
          [leaving_log 115200]))"
proof -
  have s: "connect_setup notty_platform to_115200 zero_termios zero_serial_struct unplugged =
      Some (None, at_115200,
        [IsOpen False, Open ''/dev/ttyACM0'' None,
         SetOption (baud_rate 115200) None, SetOption (parity parity_none) None,
         SetOption (character_size 8) None, SetOption (stop_bits stop_bits_one) None,
         SetOption (flow_control flow_control_none) None] @
        [TcGetAttr (- 1), TcSetAttr zero_termios (- 1), IoctlTIOCGSERIAL (- 1),
         IoctlTIOCSSERIAL \<lparr>flags = 0x2000\<rparr> (- 1)])"
    by (simp add: connect_setup_def close_if_open_def terminal_setup_def notty_platform_def
          sim_platform_def unplugged_def at_115200_def to_115200_def open_loop_opens
          flowcontrol_flags_def zero_termios_def zero_serial_struct_def)
  from connect_after_setup [OF s notty_run] s show ?thesis
    by (simp add: notty_platform_def sim_platform_def)
qed

end
